theory Spec2Isabelle
  imports Main "HOL-Library.AList"
begin

section \<open>JavaScript values, promises and the MongoDB driver\<close>

text \<open>
  Structured data (what \<^verbatim>\<open>JSON.parse\<close> yields and what the driver stores). An object keeps
  its properties in insertion order, as JavaScript does.
\<close>

datatype json =
    JNull
  | JBool bool
  | JNum int
  | JStr string
  | JArr "json list"
  | JObj "(string \<times> json) list"

type_synonym IMongoDocument = "(string \<times> json) list"

text \<open>
  Values that are thrown or that settle a promise outside the declared types: a plain
  string, an error object (given by its message), \<^verbatim>\<open>undefined\<close>, or any other value.
\<close>

datatype js_val = Str string | ErrorObject string | Undefined | Other json

datatype 'a promise = Fulfilled 'a | Rejected js_val

text \<open>
  A call into the driver either throws synchronously or returns a promise, which is modelled
  by the way it settles.
\<close>

datatype 'a call = Throws js_val | Returns "'a promise"

datatype bulk_op = UpdateOne (filter_id: json) (update_doc: IMongoDocument) (upsert: bool)

record BulkWriteOpResultObject =
  modifiedCount :: nat
  insertedCount :: nat

text \<open>
  What the tree item imports: the constant \<^verbatim>\<open>DefaultBatchSize\<close> of \<^verbatim>\<open>constants.ts\<close>, the
  methods of the driver's \<^verbatim>\<open>Collection\<close> (over a collection state \<open>'c\<close>), \<^verbatim>\<open>ObjectID\<close>,
  \<^verbatim>\<open>vm.runInNewContext\<close> and \<^verbatim>\<open>JSON.stringify\<close>. They are parameters: every theorem holds for
  all of them.
  \<^item> \<open>collection_find q c\<close> is the result set of \<^verbatim>\<open>collection.find(q)\<close> in the cursor's
    native order;
  \<^item> \<open>collection_invoke m a c\<close> is the driver method named \<open>m\<close> (\<^verbatim>\<open>drop\<close>, \<^verbatim>\<open>findOne\<close>,
    \<^verbatim>\<open>insert\<close>, ...) called with argument \<open>a\<close> (\<open>None\<close> is \<^verbatim>\<open>undefined\<close>), with the new
    collection state;
  \<^item> \<open>ObjectID v\<close> is \<^verbatim>\<open>new ObjectID(v)\<close>, which throws on a malformed id;
  \<^item> \<open>evalJS s\<close> is the outcome of \<^verbatim>\<open>vm.runInNewContext(key + '=' + s, sandbox)\<close>: the value
    \<^verbatim>\<open>sandbox[key]\<close> holds afterwards (\<open>None\<close> is \<^verbatim>\<open>undefined\<close>), or what was thrown;
  \<^item> \<open>JSON_parse_query s\<close> is \<^verbatim>\<open>JSON.parse(s)\<close>, \<open>None\<close> when it throws;
  \<^item> \<open>JSON_stringify indent v\<close> is \<^verbatim>\<open>JSON.stringify(v, null, indent)\<close>.
\<close>

text \<open>
  Of a thrown value the code reads the property \<^verbatim>\<open>message\<close> only. \<open>Thrown (Some v)\<close> is a
  thrown value whose \<^verbatim>\<open>message\<close> reads \<open>v\<close>: \<open>Str msg\<close> for an \<^verbatim>\<open>Error\<close>, \<open>Undefined\<close> for
  a thrown number, string or object without that property. \<open>Thrown None\<close> is a thrown
  \<^verbatim>\<open>null\<close> or \<^verbatim>\<open>undefined\<close>, of which no property can be read.
\<close>

datatype evaluation = Value "json option" | Thrown "js_val option"

record 'c mongo_env =
  DefaultBatchSize :: nat
  collectionName :: "'c \<Rightarrow> string"
  collection_find :: "json option \<Rightarrow> 'c \<Rightarrow> IMongoDocument list"
  collection_bulkWrite :: "bulk_op list \<Rightarrow> 'c \<Rightarrow> BulkWriteOpResultObject call \<times> 'c"
  collection_invoke :: "string \<Rightarrow> json option \<Rightarrow> 'c \<Rightarrow> json call \<times> 'c"
  ObjectID :: "json option \<Rightarrow> js_val + json"
  evalJS :: "string \<Rightarrow> evaluation"
  JSON_parse_query :: "string \<Rightarrow> json option"
  JSON_stringify :: "string \<Rightarrow> json \<Rightarrow> string"

section \<open>MongoCollectionTreeItem\<close>

text \<open>
  The remote cursor is the list of documents it has not delivered yet: \<^verbatim>\<open>hasNext()\<close> asks
  whether the list is non-empty and \<^verbatim>\<open>next()\<close> takes its head. The transport is taken to be
  reliable and the collection unchanged while a cursor is open.
\<close>

type_synonym Cursor = "IMongoDocument list"

record 'c MongoCollectionTreeItem =
  collection :: 'c
  query :: "json option"
  cursor :: "Cursor option"
  hasMoreChildren :: bool
  batchSize :: nat

datatype 'c MongoDocumentTreeItem = MongoDocumentTreeItem (item_document: IMongoDocument) (item_collection: 'c)

text \<open>
  The fields of a new item, given its parsed query, and the constructor, which parses the
  query string when there is a non-empty one (\<^verbatim>\<open>query ? JSON.parse(query) : undefined\<close>).
  \<^verbatim>\<open>_batchSize\<close> is a JavaScript number; doubling is exact there until it overflows to
  \<^verbatim>\<open>Infinity\<close>, far beyond the size of any collection, so it is a natural number here.
\<close>

definition new_MongoCollectionTreeItem ::
  "'c mongo_env \<Rightarrow> 'c \<Rightarrow> json option \<Rightarrow> 'c MongoCollectionTreeItem" where
  "new_MongoCollectionTreeItem env c q =
     \<lparr>collection = c, query = q, cursor = None, hasMoreChildren = True,
      batchSize = DefaultBatchSize env\<rparr>"

definition MongoCollectionTreeItem_constructor ::
  "'c mongo_env \<Rightarrow> 'c \<Rightarrow> string option \<Rightarrow> js_val + 'c MongoCollectionTreeItem" where
  "MongoCollectionTreeItem_constructor env c queryText =
     (case queryText of
        None \<Rightarrow> Inr (new_MongoCollectionTreeItem env c None)
      | Some q \<Rightarrow>
          if q = [] then Inr (new_MongoCollectionTreeItem env c None)
          else (case JSON_parse_query env q of
                  None \<Rightarrow> Inl (ErrorObject ''SyntaxError'')
                | Some v \<Rightarrow> Inr (new_MongoCollectionTreeItem env c (Some v))))"

text \<open>
  The \<^verbatim>\<open>while (count < this._batchSize)\<close> loop of \<^verbatim>\<open>loadMoreChildren\<close>. It returns the documents
  pushed, the cursor and \<^verbatim>\<open>_hasMoreChildren\<close>.
\<close>

function fetchLoop ::
  "nat \<Rightarrow> nat \<Rightarrow> Cursor \<Rightarrow> IMongoDocument list \<Rightarrow> bool \<Rightarrow> IMongoDocument list \<times> Cursor \<times> bool" where
  "fetchLoop count bs cur documents hasMore =
     (if count < bs then
        (case cur of
           [] \<Rightarrow> (documents, cur, False)
         | d # rest \<Rightarrow> fetchLoop (count + 1) bs rest (documents @ [d]) True)
      else (documents, cur, hasMore))"
  by pat_completeness auto
termination
  by (relation "measure (\<lambda>(count, bs, cur, documents, hasMore). bs - count)") auto

declare fetchLoop.simps [simp del]

definition loadMoreChildren ::
  "'c mongo_env \<Rightarrow> bool \<Rightarrow> 'c MongoCollectionTreeItem
     \<Rightarrow> 'c MongoDocumentTreeItem list \<times> 'c MongoCollectionTreeItem" where
  "loadMoreChildren env clearCache s =
     (let s1 = (if clearCache \<or> cursor s = None
                then s\<lparr>cursor := Some (collection_find env (query s) (collection s)),
                       batchSize := DefaultBatchSize env\<rparr>
                else s)
      in case cursor s1 of
           None \<Rightarrow> ([], s1)
         | Some cur \<Rightarrow>
             (case fetchLoop 0 (batchSize s1) cur [] (hasMoreChildren s1) of
                (documents, cur', hasMore) \<Rightarrow>
                  (map (\<lambda>d. MongoDocumentTreeItem d (collection s1)) documents,
                   s1\<lparr>cursor := Some cur', hasMoreChildren := hasMore,
                      batchSize := batchSize s1 * 2\<rparr>)))"

text \<open>\<open>fetchMore n\<close>: \<open>n\<close> successive calls \<^verbatim>\<open>loadMoreChildren(node, false)\<close>, with the batches
  they return, oldest first.\<close>

fun fetchMore ::
  "'c mongo_env \<Rightarrow> nat \<Rightarrow> 'c MongoCollectionTreeItem
     \<Rightarrow> 'c MongoDocumentTreeItem list list \<times> 'c MongoCollectionTreeItem" where
  "fetchMore env 0 s = ([], s)"
| "fetchMore env (Suc n) s =
     (case fetchMore env n s of
        (batches, s') \<Rightarrow>
          (case loadMoreChildren env False s' of
             (batch, s'') \<Rightarrow> (batches @ [batch], s'')))"

text \<open>
  \<^verbatim>\<open>update\<close>: one \<^verbatim>\<open>updateOne\<close> operation per document (\<^verbatim>\<open>documents.map\<close>, where
  \<^verbatim>\<open>new ObjectID(document._id)\<close> may throw), then \<^verbatim>\<open>bulkWrite\<close>, a line on the output
  channel, and \<^verbatim>\<open>return documents\<close>. The function is \<^verbatim>\<open>async\<close>: whatever is thrown
  rejects its promise. The third component holds the lines appended to the output channel.
\<close>

fun string_of_nat :: "nat \<Rightarrow> string" where
  "string_of_nat n =
     (if n < 10 then [''0123456789'' ! n]
      else string_of_nat (n div 10) @ [''0123456789'' ! (n mod 10)])"

declare string_of_nat.simps [simp del]

definition omit :: "IMongoDocument \<Rightarrow> string \<Rightarrow> IMongoDocument" where
  "omit d k = filter (\<lambda>kv. fst kv \<noteq> k) d"

fun operations :: "'c mongo_env \<Rightarrow> IMongoDocument list \<Rightarrow> js_val + bulk_op list" where
  "operations env [] = Inr []"
| "operations env (d # ds) =
     (case ObjectID env (map_of d ''_id'') of
        Inl e \<Rightarrow> Inl e
      | Inr oid \<Rightarrow>
          (case operations env ds of
             Inl e \<Rightarrow> Inl e
           | Inr ops \<Rightarrow> Inr (UpdateOne oid (omit d ''_id'') False # ops)))"

definition MongoCollectionTreeItem_update ::
  "'c mongo_env \<Rightarrow> IMongoDocument list \<Rightarrow> 'c MongoCollectionTreeItem
     \<Rightarrow> IMongoDocument list promise \<times> 'c MongoCollectionTreeItem \<times> string list" where
  "MongoCollectionTreeItem_update env documents s =
     (case operations env documents of
        Inl e \<Rightarrow> (Rejected e, s, [])
      | Inr ops \<Rightarrow>
          (case collection_bulkWrite env ops (collection s) of
             (Throws e, c') \<Rightarrow> (Rejected e, s\<lparr>collection := c'\<rparr>, [])
           | (Returns (Rejected e), c') \<Rightarrow> (Rejected e, s\<lparr>collection := c'\<rparr>, [])
           | (Returns (Fulfilled result), c') \<Rightarrow>
               (Fulfilled documents, s\<lparr>collection := c'\<rparr>,
                [''Successfully updated '' @ string_of_nat (modifiedCount result)
                   @ '' document(s), inserted '' @ string_of_nat (insertedCount result)
                   @ '' document(s)''])))"

subsection \<open>The command surface\<close>





















section \<open>CosmosEditorManager\<close>

subsection \<open>The host: documents, dialogs, configuration, entities\<close>

text \<open>
  Errors are values. \<open>Error msg\<close> is \<^verbatim>\<open>new Error(msg)\<close>, \<open>SyntaxError\<close> is what \<^verbatim>\<open>JSON.parse\<close>
  throws, \<open>TypeError\<close> is a property read on \<^verbatim>\<open>undefined\<close>, and \<open>External msg\<close> is a failure
  reported by a collaborator (an entity, the file system, the editor host).
\<close>

datatype error = UserCancelledError | Error string | SyntaxError | TypeError | External string

datatype DialogBoxResponses = Yes | Cancel | upload | uploadDontWarn

text \<open>
  \<^verbatim>\<open>ICosmosEditor<T>\<close>: \<open>'j\<close> is the data \<open>T\<close>, \<open>'r\<close> the state of the remote store that
  \<^verbatim>\<open>getData\<close> and \<^verbatim>\<open>update\<close> read and write.
\<close>

record ('j, 'r) ICosmosEditor =
  label :: string
  editor_id :: string
  getData :: "'r \<Rightarrow> (error + 'j) \<times> 'r"
  editor_update :: "'j \<Rightarrow> 'r \<Rightarrow> (error + 'j) \<times> 'r"

datatype treeItemClass =
  IsMongoCollectionTreeItem | IsDocDBDocumentTreeItem | IsMongoDocumentTreeItem | OtherTreeItem

record IAzureNode =
  node_id :: string
  treeItem :: treeItemClass

type_synonym AzureTreeDataProvider = "string \<Rightarrow> IAzureNode option"

record TextDocument =
  fsPath :: string
  getText :: string
  isDirty :: bool

text \<open>
  An open document as the host keeps it: its text and whether it has unsaved changes. A
  \<open>TextDocument\<close> is the view of it that the host hands to the extension.
\<close>

record buffer =
  buf_text :: string
  buf_dirty :: bool

text \<open>A text editor is known by the path of the document it shows.\<close>

type_synonym TextEditor = string

text \<open>
  What the manager imports: \<^verbatim>\<open>os.tmpdir()\<close>, \<^verbatim>\<open>JSON.parse\<close> (\<open>None\<close> when it throws),
  \<^verbatim>\<open>JSON.stringify(data, null, 2)\<close> and the constructors of the three node editors.
\<close>

record ('j, 'r) editor_env =
  tmpdir :: string
  JSON_parse :: "string \<Rightarrow> 'j option"
  JSON_stringify_2 :: "'j \<Rightarrow> string"
  MongoCollectionNodeEditor :: "IAzureNode \<Rightarrow> ('j, 'r) ICosmosEditor"
  DocDBDocumentNodeEditor :: "IAzureNode \<Rightarrow> ('j, 'r) ICosmosEditor"
  MongoDocumentNodeEditor :: "IAzureNode \<Rightarrow> ('j, 'r) ICosmosEditor"

text \<open>
  The world outside the manager: the files on disk, the open documents, the active text
  editor, the answer the user gives to the next warning (\<open>None\<close>: dismissed), the setting
  \<^verbatim>\<open>cosmosDB.showSavePrompt\<close>, whether the next save is rejected, the output channel, the time
  of day as \<^verbatim>\<open>toLocaleTimeString\<close> prints it, the remote store, and the telemetry flag of the
  action context. \<open>updateCalls\<close> is a history variable: every call of an entity's
  \<^verbatim>\<open>update\<close> made by the manager is appended to it.
\<close>

record ('j, 'r) world =
  files :: "string \<rightharpoonup> string"
  textDocuments :: "string \<rightharpoonup> buffer"
  activeTextEditor :: "TextEditor option"
  dialogAnswer :: "DialogBoxResponses option"
  showSavePrompt :: "bool option"
  saveFailure :: "error option"
  outputChannel :: "string list"
  clock :: string
  remote :: 'r
  suppressTelemetry :: bool
  updateCalls :: "(string \<times> 'j) list"

text \<open>
  The manager. \<open>fileMap\<close> keeps its keys in insertion order, as \<^verbatim>\<open>Object.keys\<close> lists
  them; a key may hold \<^verbatim>\<open>undefined\<close> (\<open>None\<close>). \<open>globalState\<close> is the value the memento
  stores under \<^verbatim>\<open>_persistedEditorsKey\<close> (\<open>None\<close>: nothing stored).
  Paths are taken normalised, so that \<^verbatim>\<open>path.relative(a, b) === ''\<close> is \<open>a = b\<close>.
\<close>

record ('j, 'r) CosmosEditorManager =
  fileMap :: "(string \<times> ('j, 'r) ICosmosEditor option) list"
  ignoreSave :: bool
  globalState :: "(string \<rightharpoonup> string) option"

definition new_CosmosEditorManager ::
  "(string \<rightharpoonup> string) option \<Rightarrow> ('j, 'r) CosmosEditorManager" where
  "new_CosmosEditorManager gs = \<lparr>fileMap = [], ignoreSave = False, globalState = gs\<rparr>"

definition path_join :: "string \<Rightarrow> string \<Rightarrow> string \<Rightarrow> string" where
  "path_join a b c = a @ ''/'' @ b @ ''/'' @ c"

definition ensureFile :: "string \<Rightarrow> ('j, 'r) world \<Rightarrow> ('j, 'r) world" where
  "ensureFile p w = (case files w p of None \<Rightarrow> w\<lparr>files := (files w)(p \<mapsto> [])\<rparr> | Some _ \<Rightarrow> w)"

definition openTextDocument ::
  "string \<Rightarrow> ('j, 'r) world \<Rightarrow> (error + TextDocument) \<times> ('j, 'r) world" where
  "openTextDocument p w =
     (case textDocuments w p of
        Some b \<Rightarrow> (Inr \<lparr>fsPath = p, getText = buf_text b, isDirty = buf_dirty b\<rparr>, w)
      | None \<Rightarrow>
          (case files w p of
             None \<Rightarrow> (Inl (External ''cannot open file''), w)
           | Some content \<Rightarrow>
               (Inr \<lparr>fsPath = p, getText = content, isDirty = False\<rparr>,
                w\<lparr>textDocuments := (textDocuments w)(p \<mapsto> \<lparr>buf_text = content, buf_dirty = False\<rparr>)\<rparr>)))"

definition showWarningMessage ::
  "('j, 'r) world \<Rightarrow> DialogBoxResponses list \<Rightarrow> DialogBoxResponses option" where
  "showWarningMessage w items =
     (case dialogAnswer w of
        None \<Rightarrow> None
      | Some a \<Rightarrow> if a \<in> set items then Some a else None)"

definition showTextDocument ::
  "TextDocument \<Rightarrow> ('j, 'r) world \<Rightarrow> TextEditor \<times> ('j, 'r) world" where
  "showTextDocument d w = (fsPath d, w\<lparr>activeTextEditor := Some (fsPath d)\<rparr>)"

text \<open>
  Modelled from the spec: \<^verbatim>\<open>util.writeToEditor\<close> of \<^verbatim>\<open>utils/vscodeUtils\<close>, which is not among
  the sources. The spec has the editor rewrite ``replace the entire buffer content''; an
  edit leaves the buffer dirty. An undefined editor is a \<open>TypeError\<close>.
\<close>

definition writeToEditor ::
  "TextEditor option \<Rightarrow> string \<Rightarrow> ('j, 'r) world \<Rightarrow> (error + unit) \<times> ('j, 'r) world" where
  "writeToEditor textEditor data w =
     (case textEditor of
        None \<Rightarrow> (Inl TypeError, w)
      | Some p \<Rightarrow>
          (case textDocuments w p of
             None \<Rightarrow> (Inl (External ''editor is closed''), w)
           | Some b \<Rightarrow>
               (Inr (), w\<lparr>textDocuments := (textDocuments w)(p \<mapsto> \<lparr>buf_text = data, buf_dirty = True\<rparr>)\<rparr>)))"

text \<open>
  \<^verbatim>\<open>textEditor.document.save()\<close>: the text goes to disk and the buffer is clean, unless the
  host rejects the save. The save event of the host is an input of its own (see
  \<open>onDidSaveTextDocument\<close>).
\<close>

definition save :: "TextEditor option \<Rightarrow> ('j, 'r) world \<Rightarrow> (error + unit) \<times> ('j, 'r) world" where
  "save textEditor w =
     (case textEditor of
        None \<Rightarrow> (Inl TypeError, w)
      | Some p \<Rightarrow>
          (case saveFailure w of
             Some e \<Rightarrow> (Inl e, w)
           | None \<Rightarrow>
               (case textDocuments w p of
                  None \<Rightarrow> (Inl (External ''editor is closed''), w)
                | Some b \<Rightarrow>
                    (Inr (), w\<lparr>files := (files w)(p \<mapsto> buf_text b),
                               textDocuments := (textDocuments w)(p \<mapsto> b\<lparr>buf_dirty := False\<rparr>)\<rparr>))))"

subsection \<open>The operations of the manager\<close>

text \<open>
  \<^verbatim>\<open>Object.keys(this.fileMap).find(...)\<close>, the truthiness test \<^verbatim>\<open>if (filePath)\<close> on its
  result (undefined and the empty string are falsy), and the read \<^verbatim>\<open>this.fileMap[filePath]\<close>,
  where an undefined \<^verbatim>\<open>filePath\<close> reads the property named \<^verbatim>\<open>undefined\<close>.
\<close>

definition findFilePath :: "('j, 'r) CosmosEditorManager \<Rightarrow> string \<Rightarrow> string option" where
  "findFilePath m p = List.find (\<lambda>filePath. filePath = p) (map fst (fileMap m))"

definition truthy :: "string option \<Rightarrow> bool" where
  "truthy filePath = (case filePath of None \<Rightarrow> False | Some p \<Rightarrow> p \<noteq> [])"

definition fileMap_get ::
  "('j, 'r) CosmosEditorManager \<Rightarrow> string option \<Rightarrow> ('j, 'r) ICosmosEditor option" where
  "fileMap_get m filePath =
     (case map_of (fileMap m) (case filePath of None \<Rightarrow> ''undefined'' | Some p \<Rightarrow> p) of
        None \<Rightarrow> None
      | Some editor \<Rightarrow> editor)"

text \<open>
  \<^verbatim>\<open>updateEditor\<close>: write the pretty-printed data, set \<^verbatim>\<open>ignoreSave\<close>, save, and reset
  \<^verbatim>\<open>ignoreSave\<close> in the \<^verbatim>\<open>finally\<close> block. The write stands before the \<^verbatim>\<open>try\<close>.
\<close>

definition updateEditor ::
  "('j, 'r) editor_env \<Rightarrow> 'j \<Rightarrow> TextEditor option \<Rightarrow> ('j, 'r) CosmosEditorManager \<Rightarrow> ('j, 'r) world
     \<Rightarrow> (error + unit) \<times> ('j, 'r) CosmosEditorManager \<times> ('j, 'r) world" where
  "updateEditor env data textEditor m w =
     (case writeToEditor textEditor (JSON_stringify_2 env data) w of
        (Inl e, w1) \<Rightarrow> (Inl e, m, w1)
      | (Inr u, w1) \<Rightarrow>
          (case save textEditor w1 of
             (r, w2) \<Rightarrow> (r, (m\<lparr>ignoreSave := True\<rparr>)\<lparr>ignoreSave := False\<rparr>, w2)))"

text \<open>
  \<^verbatim>\<open>updateToCloud\<close>. The callee \<^verbatim>\<open>editor.update\<close> is read before the argument is evaluated,
  so an undefined editor is a \<open>TypeError\<close> whatever the text. \<^verbatim>\<open>output.show()\<close> is taken
  to leave the active text editor as it is.
\<close>

definition updateToCloud ::
  "('j, 'r) editor_env \<Rightarrow> ('j, 'r) ICosmosEditor option \<Rightarrow> TextDocument
     \<Rightarrow> ('j, 'r) CosmosEditorManager \<Rightarrow> ('j, 'r) world
     \<Rightarrow> (error + unit) \<times> ('j, 'r) CosmosEditorManager \<times> ('j, 'r) world" where
  "updateToCloud env editor doc m w =
     (case editor of
        None \<Rightarrow> (Inl TypeError, m, w)
      | Some e \<Rightarrow>
          (case JSON_parse env (getText doc) of
             None \<Rightarrow> (Inl SyntaxError, m, w)
           | Some data \<Rightarrow>
               (case editor_update e data (remote w) of
                  (Inl err, r') \<Rightarrow>
                    (Inl err, m, w\<lparr>remote := r', updateCalls := updateCalls w @ [(editor_id e, data)]\<rparr>)
                | (Inr updatedDoc, r') \<Rightarrow>
                    updateEditor env updatedDoc (activeTextEditor w) m
                      (w\<lparr>remote := r',
                         updateCalls := updateCalls w @ [(editor_id e, data)],
                         outputChannel := outputChannel w
                           @ [clock w @ '': Updated entity '' @ [CHR 0x22] @ label e @ [CHR 0x22]]\<rparr>))))"

definition failedToFind :: string where
  "failedToFind = ''Failed to find entity on the tree. Please check the explorer to confirm that the entity exists, and that permissions are intact.''"

text \<open>
  \<^verbatim>\<open>loadPersistedEditor\<close>. It returns the path it found among the persisted editors (or
  \<^verbatim>\<open>undefined\<close>) and touches the manager only: a resolved node is stored in \<open>fileMap\<close>, with
  an undefined editor when its tree item is of none of the three classes.
\<close>

definition loadPersistedEditor ::
  "('j, 'r) editor_env \<Rightarrow> string \<Rightarrow> AzureTreeDataProvider option \<Rightarrow> ('j, 'r) CosmosEditorManager
     \<Rightarrow> (error + string option) \<times> ('j, 'r) CosmosEditorManager" where
  "loadPersistedEditor env documentUri tree m =
     (case globalState m of
        None \<Rightarrow> (Inr None, m)
      | Some persistedEditors \<Rightarrow>
          (let editorFilePath =
                 (case persistedEditors documentUri of None \<Rightarrow> None | Some _ \<Rightarrow> Some documentUri)
           in if truthy editorFilePath then
                (case tree of
                   None \<Rightarrow> (Inl TypeError, m)
                 | Some findNode \<Rightarrow>
                     (case persistedEditors documentUri of
                        None \<Rightarrow> (Inr editorFilePath, m)
                      | Some entityId \<Rightarrow>
                          (case findNode entityId of
                             None \<Rightarrow> (Inl (Error failedToFind), m)
                           | Some editorNode \<Rightarrow>
                               (Inr editorFilePath,
                                m\<lparr>fileMap := AList.update documentUri
                                     (if treeItem editorNode = IsMongoCollectionTreeItem
                                      then Some (MongoCollectionNodeEditor env editorNode)
                                      else if treeItem editorNode = IsDocDBDocumentTreeItem
                                      then Some (DocDBDocumentNodeEditor env editorNode)
                                      else if treeItem editorNode = IsMongoDocumentTreeItem
                                      then Some (MongoDocumentNodeEditor env editorNode)
                                      else None)
                                     (fileMap m)\<rparr>))))
              else (Inr editorFilePath, m)))"

text \<open>
  The \<^verbatim>\<open>forEach\<close> of \<^verbatim>\<open>showDocument\<close> that copies the id of every editor of \<open>fileMap\<close> into
  the persisted object, in key order; reading \<^verbatim>\<open>.id\<close> of an undefined editor throws and
  leaves the entries copied so far.
\<close>

fun copyIds ::
  "(string \<times> ('j, 'r) ICosmosEditor option) list \<Rightarrow> (string \<rightharpoonup> string)
     \<Rightarrow> error option \<times> (string \<rightharpoonup> string)" where
  "copyIds [] fileMapLabels = (None, fileMapLabels)"
| "copyIds ((key, None) # rest) fileMapLabels = (Some TypeError, fileMapLabels)"
| "copyIds ((key, Some editor) # rest) fileMapLabels =
     copyIds rest (fileMapLabels(key \<mapsto> editor_id editor))"

definition localDocPath :: "('j, 'r) editor_env \<Rightarrow> string \<Rightarrow> string" where
  "localDocPath env fileName = path_join (tmpdir env) ''vscode-cosmosdb-editor'' fileName"

text \<open>
  \<^verbatim>\<open>showDocument\<close>. \<^verbatim>\<open>globalState.get(key, {})\<close> hands out the stored object itself, so the
  \<^verbatim>\<open>forEach\<close> writes into the stored table even when it throws half-way; the default \<^verbatim>\<open>{}\<close>
  is stored only by the \<^verbatim>\<open>update\<close> that follows.
\<close>

definition showDocument ::
  "('j, 'r) editor_env \<Rightarrow> ('j, 'r) ICosmosEditor \<Rightarrow> string
     \<Rightarrow> ('j, 'r) CosmosEditorManager \<Rightarrow> ('j, 'r) world
     \<Rightarrow> (error + unit) \<times> ('j, 'r) CosmosEditorManager \<times> ('j, 'r) world" where
  "showDocument env editor fileName m w =
     (case openTextDocument (localDocPath env fileName) (ensureFile (localDocPath env fileName) w) of
        (Inl e, w2) \<Rightarrow> (Inl e, m, w2)
      | (Inr document, w2) \<Rightarrow>
          if isDirty document \<and> showWarningMessage w2 [Yes, Cancel] \<noteq> Some Yes
          then (Inl UserCancelledError, m, w2)
          else
            (let m1 = m\<lparr>fileMap := AList.update (localDocPath env fileName) (Some editor) (fileMap m)\<rparr>
             in case copyIds (fileMap m1)
                       (case globalState m1 of None \<Rightarrow> Map.empty | Some stored \<Rightarrow> stored) of
                  (Some e, fileMapLabels) \<Rightarrow>
                    (Inl e,
                     m1\<lparr>globalState :=
                          (case globalState m1 of None \<Rightarrow> None | Some stored \<Rightarrow> Some fileMapLabels)\<rparr>,
                     w2)
                | (None, fileMapLabels) \<Rightarrow>
                    (case showTextDocument document w2 of
                       (textEditor, w3) \<Rightarrow>
                         (case getData editor (remote w3) of
                            (Inl e, r') \<Rightarrow>
                              (Inl e, m1\<lparr>globalState := Some fileMapLabels\<rparr>, w3\<lparr>remote := r'\<rparr>)
                          | (Inr data, r') \<Rightarrow>
                              updateEditor env data (Some textEditor)
                                (m1\<lparr>globalState := Some fileMapLabels\<rparr>) (w3\<lparr>remote := r'\<rparr>)))))"

definition updateMatchingNode ::
  "('j, 'r) editor_env \<Rightarrow> string \<Rightarrow> AzureTreeDataProvider option
     \<Rightarrow> ('j, 'r) CosmosEditorManager \<Rightarrow> ('j, 'r) world
     \<Rightarrow> (error + unit) \<times> ('j, 'r) CosmosEditorManager \<times> ('j, 'r) world" where
  "updateMatchingNode env documentUri tree m w =
     (case (if \<not> truthy (findFilePath m documentUri)
            then loadPersistedEditor env documentUri tree m
            else (Inr (findFilePath m documentUri), m)) of
        (Inl e, m1) \<Rightarrow> (Inl e, m1, w)
      | (Inr filePath, m1) \<Rightarrow>
          (case openTextDocument documentUri w of
             (Inl e, w1) \<Rightarrow> (Inl e, m1, w1)
           | (Inr document, w1) \<Rightarrow> updateToCloud env (fileMap_get m1 filePath) document m1 w1))"

text \<open>
  \<^verbatim>\<open>onDidSaveTextDocument\<close>, the handler the host calls after a document was saved. The
  warning text reads \<^verbatim>\<open>editor.label\<close>, a \<open>TypeError\<close> on an undefined editor.
\<close>

definition onDidSaveTextDocument ::
  "('j, 'r) editor_env \<Rightarrow> TextDocument \<Rightarrow> AzureTreeDataProvider
     \<Rightarrow> ('j, 'r) CosmosEditorManager \<Rightarrow> ('j, 'r) world
     \<Rightarrow> (error + unit) \<times> ('j, 'r) CosmosEditorManager \<times> ('j, 'r) world" where
  "onDidSaveTextDocument env doc tree m w =
     (case (if \<not> truthy (findFilePath m (fsPath doc))
            then loadPersistedEditor env (fsPath doc) (Some tree) m
            else (Inr (findFilePath m (fsPath doc)), m)) of
        (Inl e, m1) \<Rightarrow> (Inl e, m1, w\<lparr>suppressTelemetry := True\<rparr>)
      | (Inr filePath, m1) \<Rightarrow>
          if \<not> ignoreSave m1 \<and> truthy filePath then
            (let w1 = w\<lparr>suppressTelemetry := False\<rparr>;
                 editor = fileMap_get m1 filePath
             in if showSavePrompt w1 \<noteq> Some False then
                  (case editor of
                     None \<Rightarrow> (Inl TypeError, m1, w1)
                   | Some e \<Rightarrow>
                       if showWarningMessage w1 [upload, uploadDontWarn, Cancel] = Some uploadDontWarn
                       then updateToCloud env editor doc m1 (w1\<lparr>showSavePrompt := Some False\<rparr>)
                       else if showWarningMessage w1 [upload, uploadDontWarn, Cancel] \<noteq> Some upload
                       then (Inl UserCancelledError, m1, w1)
                       else updateToCloud env editor doc m1 w1)
                else updateToCloud env editor doc m1 w1)
          else (Inr (), m1, w\<lparr>suppressTelemetry := True\<rparr>))"

text \<open>
  A sequence of \<^verbatim>\<open>updateEditor\<close> calls on one manager; the world each call finds is free
  (whatever happened to the host in between).
\<close>

fun updateEditor_calls ::
  "('j, 'r) editor_env \<Rightarrow> ('j \<times> TextEditor option \<times> ('j, 'r) world) list
     \<Rightarrow> ('j, 'r) CosmosEditorManager \<Rightarrow> ('j, 'r) CosmosEditorManager" where
  "updateEditor_calls env [] m = m"
| "updateEditor_calls env ((data, textEditor, w) # calls) m =
     updateEditor_calls env calls (fst (snd (updateEditor env data textEditor m w)))"

section \<open>Concrete instances\<close>

text \<open>
  A small driver: the collection state is the list of its documents, \<^verbatim>\<open>find\<close> returns all of
  them, \<^verbatim>\<open>bulkWrite\<close> matches nothing, \<^verbatim>\<open>drop\<close> is rejected by the server, and of the
  argument texts only \<^verbatim>\<open>{}\<close> evaluates to a value: two throw a number and \<^verbatim>\<open>null\<close>, every
  other one is a syntax error. The default batch size is 2.
\<close>

definition demo_stringify :: "string \<Rightarrow> json \<Rightarrow> string" where
  "demo_stringify indent v =
     (case v of
        JNull \<Rightarrow> ''null''
      | JBool b \<Rightarrow> (if b then ''true'' else ''false'')
      | JNum n \<Rightarrow> (if n < 0 then ''-'' else []) @ string_of_nat (nat \<bar>n\<bar>)
      | JStr s \<Rightarrow> [CHR 0x22] @ s @ [CHR 0x22]
      | JArr xs \<Rightarrow> (if xs = [] then ''[]'' else ''[...]'')
      | JObj kvs \<Rightarrow> (if kvs = [] then ''{}'' else ''{...}''))"

definition demo_env :: "IMongoDocument list mongo_env" where
  "demo_env =
     \<lparr>DefaultBatchSize = 2,
      collectionName = (\<lambda>c. ''people''),
      collection_find = (\<lambda>q c. c),
      collection_bulkWrite = (\<lambda>ops c. (Returns (Fulfilled \<lparr>modifiedCount = 0, insertedCount = 0\<rparr>), c)),
      collection_invoke = (\<lambda>m a c.
         if m = ''drop'' then (Returns (Rejected (ErrorObject ''ns not found'')), c)
         else if m = ''count'' then (Returns (Fulfilled (JNum (int (length c)))), c)
         else (Returns (Fulfilled JNull), c)),
      ObjectID = (\<lambda>v. case v of
                         None \<Rightarrow> Inr (JStr ''generated'')
                       | Some (JStr s) \<Rightarrow> Inr (JStr s)
                       | Some _ \<Rightarrow> Inl (ErrorObject ''Argument passed in must be a string'')),
      evalJS = (\<lambda>s. if s = ''{}'' then Value (Some (JObj []))
                    else if s = ''(function () { throw 1 })()'' then Thrown (Some Undefined)
                    else if s = ''(function () { throw null })()'' then Thrown None
                    else Thrown (Some (Str ''Unexpected end of input''))),
      JSON_parse_query = (\<lambda>s. if s = ''{}'' then Some (JObj []) else None),
      JSON_stringify = demo_stringify\<rparr>"

definition demo_doc :: "string \<Rightarrow> IMongoDocument" where
  "demo_doc k = [(''_id'', JStr k), (''name'', JStr k)]"

text \<open>
  A small host: the data of an entity is one boolean, the remote store holds the boolean of
  the one entity there is, and \<^verbatim>\<open>update\<close> stores what it is given and returns it. The parser
  reads the two literals, also after one blank.
\<close>

definition demo_editor :: "string \<Rightarrow> (bool, bool) ICosmosEditor" where
  "demo_editor i =
     \<lparr>label = ''entity '' @ i, editor_id = i,
      getData = (\<lambda>r. (Inr r, r)),
      editor_update = (\<lambda>d r. (Inr d, d))\<rparr>"

definition demo_editor_env :: "(bool, bool) editor_env" where
  "demo_editor_env =
     \<lparr>tmpdir = ''/tmp'',
      JSON_parse = (\<lambda>s. if s = ''true'' \<or> s = '' true'' then Some True
                        else if s = ''false'' \<or> s = '' false'' then Some False else None),
      JSON_stringify_2 = (\<lambda>b. if b then ''true'' else ''false''),
      MongoCollectionNodeEditor = (\<lambda>n. demo_editor (node_id n)),
      DocDBDocumentNodeEditor = (\<lambda>n. demo_editor (node_id n)),
      MongoDocumentNodeEditor = (\<lambda>n. demo_editor (node_id n))\<rparr>"

definition demo_world :: "(bool, bool) world" where
  "demo_world =
     \<lparr>files = Map.empty, textDocuments = Map.empty, activeTextEditor = None,
      dialogAnswer = Some upload, showSavePrompt = None, saveFailure = None,
      outputChannel = [], clock = ''12:00:00'', remote = True, suppressTelemetry = False,
      updateCalls = []\<rparr>"

text \<open>
  The buffer of the entity \<open>id1\<close> bound in a new manager, the same world after the user
  typed a blank and \<^verbatim>\<open>false\<close> into the buffer and saved it, that world with another document
  open in the active editor, and a manager that starts with a persisted binding and nothing
  in memory.
\<close>

definition demo_path :: string where
  "demo_path = ''/tmp/vscode-cosmosdb-editor/a.json''"

definition demo_bound ::
  "(error + unit) \<times> (bool, bool) CosmosEditorManager \<times> (bool, bool) world" where
  "demo_bound =
     showDocument demo_editor_env (demo_editor ''id1'') ''a.json'' (new_CosmosEditorManager None)
       demo_world"




definition demo_stale :: "(bool, bool) CosmosEditorManager" where
  "demo_stale = new_CosmosEditorManager (Some [demo_path \<mapsto> ''id1''])"

section \<open>Properties of the paging cursor\<close>

text \<open>The loop delivers the next \<open>bs - count\<close> documents of the cursor, or what is left of it.\<close>

lemma fetchLoop_eq:
  "fetchLoop count bs cur documents hasMore =
     (documents @ take (bs - count) cur, drop (bs - count) cur,
      if count < bs then bs - count \<le> length cur else hasMore)"
proof (induction count bs cur documents hasMore rule: fetchLoop.induct)
  case (1 count bs cur documents hasMore)
  show ?case
  proof (cases "count < bs")
    case False
    then show ?thesis by (simp add: fetchLoop.simps [of count])
  next
    case True
    then obtain m where m: "bs - count = Suc m" by (cases "bs - count") auto
    with True have m': "bs - (count + 1) = m" by simp
    show ?thesis
    proof (cases cur)
      case Nil
      with True show ?thesis by (simp add: fetchLoop.simps [of count])
    next
      case (Cons d rest)
      with True "1.IH" [OF True Cons] m m' show ?thesis
        by (auto simp add: fetchLoop.simps [of count])
    qed
  qed
qed

lemma loadMoreChildren_reset:
  assumes "clearCache \<or> cursor s = None"
  shows "loadMoreChildren env clearCache s =
     (map (\<lambda>d. MongoDocumentTreeItem d (collection s))
        (take (DefaultBatchSize env) (collection_find env (query s) (collection s))),
      s\<lparr>cursor := Some (drop (DefaultBatchSize env) (collection_find env (query s) (collection s))),
        hasMoreChildren :=
          (if 0 < DefaultBatchSize env
           then DefaultBatchSize env \<le> length (collection_find env (query s) (collection s))
           else hasMoreChildren s),
        batchSize := DefaultBatchSize env * 2\<rparr>)"
  using assms by (simp add: loadMoreChildren_def fetchLoop_eq)

lemma loadMoreChildren_continue:
  assumes "cursor s = Some cur"
  shows "loadMoreChildren env False s =
     (map (\<lambda>d. MongoDocumentTreeItem d (collection s)) (take (batchSize s) cur),
      s\<lparr>cursor := Some (drop (batchSize s) cur),
        hasMoreChildren := (if 0 < batchSize s then batchSize s \<le> length cur else hasMoreChildren s),
        batchSize := batchSize s * 2\<rparr>)"
  using assms by (simp add: loadMoreChildren_def fetchLoop_eq)

lemma pow2_consumed: "(2 ^ k - 1) * B + 2 ^ k * B = (2 ^ Suc k - 1) * (B::nat)"
proof -
  have "(1::nat) \<le> 2 ^ k" by simp
  then have "(2 ^ k - 1) + 2 ^ k = (2 ^ Suc k - 1 :: nat)" by simp
  then show ?thesis by (metis add_mult_distrib)
qed

lemma full_batch_iff:
  assumes "0 < (B::nat)"
  shows "(2 ^ k * B \<le> N - (2 ^ k - 1) * B) = ((2 ^ Suc k - 1) * B \<le> N)"
proof -
  have pos: "0 < 2 ^ k * B" using assms by simp
  show ?thesis
    unfolding pow2_consumed [symmetric] using pos by arith
qed

lemma fetchMore_Suc:
  assumes "cursor s = None" and "0 < DefaultBatchSize env"
  shows "fetchMore env (Suc k) s =
     (map (\<lambda>i. map (\<lambda>d. MongoDocumentTreeItem d (collection s))
               (take (2 ^ i * DefaultBatchSize env)
                  (drop ((2 ^ i - 1) * DefaultBatchSize env) (collection_find env (query s) (collection s)))))
          [0..<Suc k],
      s\<lparr>cursor := Some (drop ((2 ^ Suc k - 1) * DefaultBatchSize env)
                           (collection_find env (query s) (collection s))),
        hasMoreChildren :=
          ((2 ^ Suc k - 1) * DefaultBatchSize env \<le> length (collection_find env (query s) (collection s))),
        batchSize := 2 ^ Suc k * DefaultBatchSize env\<rparr>)"
proof (induction k)
  case 0
  from assms show ?case
    by (simp add: loadMoreChildren_reset)
next
  case (Suc k)
  let ?B = "DefaultBatchSize env"
  let ?docs = "collection_find env (query s) (collection s)"
  let ?s' = "s\<lparr>cursor := Some (drop ((2 ^ Suc k - 1) * ?B) ?docs),
        hasMoreChildren := ((2 ^ Suc k - 1) * ?B \<le> length ?docs),
        batchSize := 2 ^ Suc k * ?B\<rparr>"
  have c: "cursor ?s' = Some (drop ((2 ^ Suc k - 1) * ?B) ?docs)" by simp
  have step: "loadMoreChildren env False ?s' =
     (map (\<lambda>d. MongoDocumentTreeItem d (collection s))
        (take (2 ^ Suc k * ?B) (drop ((2 ^ Suc k - 1) * ?B) ?docs)),
      s\<lparr>cursor := Some (drop ((2 ^ Suc (Suc k) - 1) * ?B) ?docs),
        hasMoreChildren := ((2 ^ Suc (Suc k) - 1) * ?B \<le> length ?docs),
        batchSize := 2 ^ Suc (Suc k) * ?B\<rparr>)"
    unfolding loadMoreChildren_continue [OF c]
    using assms(2) full_batch_iff [OF assms(2), of "Suc k" "length ?docs"]
      pow2_consumed [of "Suc k" ?B]
    by (simp add: add.commute mult.commute)
  show ?case
    by (subst fetchMore.simps(2)) (simp only: Suc.IH step prod.case upt_Suc_append le0 if_True map_append list.map)
qed

lemma concat_batches:
  "concat (map (\<lambda>i. map f (take (2 ^ i * B) (drop ((2 ^ i - 1) * B) docs))) [0..<n])
     = map f (take ((2 ^ n - 1) * B) docs)"
proof (induction n)
  case 0
  show ?case by simp
next
  case (Suc n)
  have "take ((2 ^ Suc n - 1) * B) docs
          = take ((2 ^ n - 1) * B) docs @ take (2 ^ n * B) (drop ((2 ^ n - 1) * B) docs)"
    unfolding pow2_consumed [symmetric] by (rule take_add)
  with Suc show ?case by simp
qed

lemma exhausted_bound:
  assumes "0 < (B::nat)"
  shows "N < (2 ^ Suc N - 1) * B"
proof -
  have "Suc N < 2 ^ Suc N" by (rule less_exp)
  then have "Suc N \<le> 2 ^ Suc N - 1" by simp
  moreover from assms have "1 \<le> B" by simp
  ultimately have "Suc N * 1 \<le> (2 ^ Suc N - 1) * B" by (rule mult_le_mono)
  then show ?thesis by simp
qed

lemma fetchMore_exhausts:
  assumes "cursor s = None" and "0 < DefaultBatchSize env"
  shows "\<exists>n. concat (fst (fetchMore env n s))
               = map (\<lambda>d. MongoDocumentTreeItem d (collection s))
                   (collection_find env (query s) (collection s))
             \<and> \<not> hasMoreChildren (snd (fetchMore env n s))"
proof -
  let ?docs = "collection_find env (query s) (collection s)"
  let ?n = "Suc (length ?docs)"
  have lt: "length ?docs < (2 ^ ?n - 1) * DefaultBatchSize env"
    using assms(2) by (rule exhausted_bound)
  have "concat (fst (fetchMore env ?n s)) = map (\<lambda>d. MongoDocumentTreeItem d (collection s)) ?docs"
    unfolding fetchMore_Suc [OF assms] fst_conv concat_batches using lt by simp
  moreover have "\<not> hasMoreChildren (snd (fetchMore env ?n s))"
    unfolding fetchMore_Suc [OF assms] snd_conv using lt by simp
  ultimately show ?thesis by blast
qed

text \<open>An item as the constructor leaves it has no cursor yet.\<close>

lemma constructor_fresh:
  assumes "MongoCollectionTreeItem_constructor env c queryText = Inr s"
  shows "cursor s = None \<and> hasMoreChildren s \<and> batchSize s = DefaultBatchSize env \<and> collection s = c"
  using assms
  by (auto simp add: MongoCollectionTreeItem_constructor_def new_MongoCollectionTreeItem_def
      split: option.splits if_splits)

lemma demo_simps:
  "DefaultBatchSize demo_env = 2"
  "collection_find demo_env q c = c"
  by (simp_all add: demo_env_def)

text \<open>
  Claim C1, as the code has it. Starting without a cursor and with a positive default batch
  size \<open>B\<close>, the \<open>(i+1)\<close>-th call \<^verbatim>\<open>loadMoreChildren(node, false)\<close> returns the next
  \<open>min (2^i * B) remaining\<close> documents in the cursor's order; the batches put together are a
  prefix of the collection, and all of it once \<open>(2^(k+1) - 1) * B\<close> reaches its size \<open>N\<close>.
  \<^verbatim>\<open>hasMoreChildren\<close> after the \<open>(k+1)\<close>-th call is \<open>(2^(k+1) - 1) * B \<le> N\<close>: it turns false
  with the first batch that comes back short of its batch size. When \<open>N\<close> is exactly
  \<open>(2^(k+1) - 1) * B\<close> that batch is the empty one after the batch with the last document.
\<close>

theorem pagination_batches:
  assumes "cursor s = None" and "0 < DefaultBatchSize env"
  shows "(case fetchMore env (Suc k) s of
           (batches, s') \<Rightarrow>
             length batches = Suc k \<and>
             (\<forall>i\<le>k. batches ! i =
                map (\<lambda>d. MongoDocumentTreeItem d (collection s))
                  (take (2 ^ i * DefaultBatchSize env)
                     (drop ((2 ^ i - 1) * DefaultBatchSize env)
                        (collection_find env (query s) (collection s))))) \<and>
             (\<forall>i\<le>k. length (batches ! i) =
                min (2 ^ i * DefaultBatchSize env)
                  (length (collection_find env (query s) (collection s))
                     - (2 ^ i - 1) * DefaultBatchSize env)) \<and>
             concat batches =
               map (\<lambda>d. MongoDocumentTreeItem d (collection s))
                 (take ((2 ^ Suc k - 1) * DefaultBatchSize env)
                    (collection_find env (query s) (collection s))) \<and>
             (length (collection_find env (query s) (collection s)) \<le> (2 ^ Suc k - 1) * DefaultBatchSize env
                \<longrightarrow> concat batches =
                      map (\<lambda>d. MongoDocumentTreeItem d (collection s))
                        (collection_find env (query s) (collection s))) \<and>
             hasMoreChildren s' =
               ((2 ^ Suc k - 1) * DefaultBatchSize env
                  \<le> length (collection_find env (query s) (collection s))))
       \<and> (\<exists>n. concat (fst (fetchMore env n s))
                  = map (\<lambda>d. MongoDocumentTreeItem d (collection s))
                      (collection_find env (query s) (collection s))
                \<and> \<not> hasMoreChildren (snd (fetchMore env n s)))"
proof -
  let ?B = "DefaultBatchSize env"
  let ?docs = "collection_find env (query s) (collection s)"
  let ?item = "\<lambda>d. MongoDocumentTreeItem d (collection s)"
  let ?batch = "\<lambda>i. map ?item (take (2 ^ i * ?B) (drop ((2 ^ i - 1) * ?B) ?docs))"
  have nth: "map ?batch [0..<Suc k] ! i = ?batch i" if "i \<le> k" for i
    using that nth_map [of i "[0..<Suc k]" ?batch] by (simp del: upt_Suc)
  have len: "length (?batch i) = min (2 ^ i * ?B) (length ?docs - (2 ^ i - 1) * ?B)" for i
    by (simp add: min.commute)
  have cc: "concat (map ?batch [0..<Suc k]) = map ?item (take ((2 ^ Suc k - 1) * ?B) ?docs)"
    by (rule concat_batches)
  have "case (map ?batch [0..<Suc k],
              s\<lparr>cursor := Some (drop ((2 ^ Suc k - 1) * ?B) ?docs),
                hasMoreChildren := ((2 ^ Suc k - 1) * ?B \<le> length ?docs),
                batchSize := 2 ^ Suc k * ?B\<rparr>) of
          (batches, s') \<Rightarrow>
             length batches = Suc k \<and>
             (\<forall>i\<le>k. batches ! i = ?batch i) \<and>
             (\<forall>i\<le>k. length (batches ! i) = min (2 ^ i * ?B) (length ?docs - (2 ^ i - 1) * ?B)) \<and>
             concat batches = map ?item (take ((2 ^ Suc k - 1) * ?B) ?docs) \<and>
             (length ?docs \<le> (2 ^ Suc k - 1) * ?B \<longrightarrow> concat batches = map ?item ?docs) \<and>
             hasMoreChildren s' = ((2 ^ Suc k - 1) * ?B \<le> length ?docs)"
    unfolding prod.case using nth len cc by (simp del: upt_Suc)
  then show ?thesis
    unfolding fetchMore_Suc [OF assms] using fetchMore_exhausts [OF assms] by (rule conjI)
qed

theorem pagination_batches_witness:
  "cursor (new_MongoCollectionTreeItem demo_env [demo_doc ''a'', demo_doc ''b'', demo_doc ''c''] None) = None
   \<and> 0 < DefaultBatchSize demo_env
   \<and> fst (fetchMore demo_env 2
             (new_MongoCollectionTreeItem demo_env [demo_doc ''a'', demo_doc ''b'', demo_doc ''c''] None))
       = [[MongoDocumentTreeItem (demo_doc ''a'') [demo_doc ''a'', demo_doc ''b'', demo_doc ''c''],
           MongoDocumentTreeItem (demo_doc ''b'') [demo_doc ''a'', demo_doc ''b'', demo_doc ''c'']],
          [MongoDocumentTreeItem (demo_doc ''c'') [demo_doc ''a'', demo_doc ''b'', demo_doc ''c'']]]
   \<and> \<not> hasMoreChildren (snd (fetchMore demo_env 2
             (new_MongoCollectionTreeItem demo_env [demo_doc ''a'', demo_doc ''b'', demo_doc ''c''] None)))"
proof -
  let ?s = "new_MongoCollectionTreeItem demo_env [demo_doc ''a'', demo_doc ''b'', demo_doc ''c''] None"
  have c: "cursor ?s = None" by (simp add: new_MongoCollectionTreeItem_def)
  have b: "0 < DefaultBatchSize demo_env" by (simp add: demo_simps)
  obtain batches s' where f: "fetchMore demo_env (Suc 1) ?s = (batches, s')"
    by (cases "fetchMore demo_env (Suc 1) ?s")
  have two: "Suc 1 = 2" by simp
  from pagination_batches [OF c b, of 1, THEN conjunct1] f
  have len: "length batches = 2"
    and b0: "batches ! 0 = map (\<lambda>d. MongoDocumentTreeItem d (collection ?s))
                  (take (2 ^ 0 * DefaultBatchSize demo_env)
                     (drop ((2 ^ 0 - 1) * DefaultBatchSize demo_env)
                        (collection_find demo_env (query ?s) (collection ?s))))"
    and b1: "batches ! 1 = map (\<lambda>d. MongoDocumentTreeItem d (collection ?s))
                  (take (2 ^ 1 * DefaultBatchSize demo_env)
                     (drop ((2 ^ 1 - 1) * DefaultBatchSize demo_env)
                        (collection_find demo_env (query ?s) (collection ?s))))"
    and hm: "hasMoreChildren s' = ((2 ^ Suc 1 - 1) * DefaultBatchSize demo_env
                  \<le> length (collection_find demo_env (query ?s) (collection ?s)))"
    by simp_all
  from len obtain x y where xy: "batches = [x, y]"
    by (cases batches; cases "tl batches"; cases "tl (tl batches)") auto
  from b0 b1 xy have "batches =
        [[MongoDocumentTreeItem (demo_doc ''a'') [demo_doc ''a'', demo_doc ''b'', demo_doc ''c''],
           MongoDocumentTreeItem (demo_doc ''b'') [demo_doc ''a'', demo_doc ''b'', demo_doc ''c'']],
          [MongoDocumentTreeItem (demo_doc ''c'') [demo_doc ''a'', demo_doc ''b'', demo_doc ''c'']]]"
    by (simp add: demo_simps new_MongoCollectionTreeItem_def)
  moreover from hm have "\<not> hasMoreChildren s'"
    by (simp add: demo_simps new_MongoCollectionTreeItem_def)
  moreover have f2: "fetchMore demo_env 2 ?s = (batches, s')"
    using f unfolding two .
  ultimately show ?thesis unfolding f2 using c b by simp
qed

text \<open>
  Two documents and batch size 2: the first batch holds both documents, the last one
  included, and \<^verbatim>\<open>hasMoreChildren\<close> is still true; the call after it returns nothing.
\<close>

theorem hasMore_after_last_document_counterexample:
  "fst (loadMoreChildren demo_env False
          (new_MongoCollectionTreeItem demo_env [demo_doc ''a'', demo_doc ''b''] None))
     = [MongoDocumentTreeItem (demo_doc ''a'') [demo_doc ''a'', demo_doc ''b''],
        MongoDocumentTreeItem (demo_doc ''b'') [demo_doc ''a'', demo_doc ''b'']]
   \<and> hasMoreChildren (snd (loadMoreChildren demo_env False
          (new_MongoCollectionTreeItem demo_env [demo_doc ''a'', demo_doc ''b''] None)))
   \<and> fst (loadMoreChildren demo_env False (snd (loadMoreChildren demo_env False
          (new_MongoCollectionTreeItem demo_env [demo_doc ''a'', demo_doc ''b''] None)))) = []"
  by (simp add: loadMoreChildren_def new_MongoCollectionTreeItem_def demo_simps fetchLoop.simps)

text \<open>
  Claim C6. With \<^verbatim>\<open>clearCache\<close>, or when there is no cursor yet, \<^verbatim>\<open>loadMoreChildren\<close> opens
  a new cursor on the stored query and takes the default batch size: the batch it returns is
  the first \<open>B\<close> documents of the collection, whatever was consumed before, and the batch
  size it leaves for the next call is \<open>2 * B\<close>.
\<close>

theorem clearCache_restarts:
  assumes "clearCache \<or> cursor s = None"
  shows "case loadMoreChildren env clearCache s of
           (batch, s') \<Rightarrow>
             batch = map (\<lambda>d. MongoDocumentTreeItem d (collection s))
                       (take (DefaultBatchSize env) (collection_find env (query s) (collection s))) \<and>
             cursor s' = Some (drop (DefaultBatchSize env) (collection_find env (query s) (collection s))) \<and>
             batchSize s' = DefaultBatchSize env * 2 \<and>
             query s' = query s \<and> collection s' = collection s"
  unfolding loadMoreChildren_reset [OF assms] by simp

theorem clearCache_restarts_witness:
  "fst (loadMoreChildren demo_env True
          (snd (loadMoreChildren demo_env False
                  (new_MongoCollectionTreeItem demo_env [demo_doc ''a'', demo_doc ''b'', demo_doc ''c''] None))))
     = [MongoDocumentTreeItem (demo_doc ''a'') [demo_doc ''a'', demo_doc ''b'', demo_doc ''c''],
        MongoDocumentTreeItem (demo_doc ''b'') [demo_doc ''a'', demo_doc ''b'', demo_doc ''c'']]
   \<and> batchSize (snd (loadMoreChildren demo_env True
          (snd (loadMoreChildren demo_env False
                  (new_MongoCollectionTreeItem demo_env [demo_doc ''a'', demo_doc ''b'', demo_doc ''c''] None)))))
     = 4"
proof -
  let ?s0 = "new_MongoCollectionTreeItem demo_env [demo_doc ''a'', demo_doc ''b'', demo_doc ''c''] None"
  let ?s1 = "snd (loadMoreChildren demo_env False ?s0)"
  have s1: "collection ?s1 = [demo_doc ''a'', demo_doc ''b'', demo_doc ''c'']" "query ?s1 = None"
    by (simp_all add: loadMoreChildren_reset new_MongoCollectionTreeItem_def)
  obtain batch s' where l: "loadMoreChildren demo_env True ?s1 = (batch, s')"
    by (cases "loadMoreChildren demo_env True ?s1")
  from clearCache_restarts [of True ?s1 demo_env] l s1 show ?thesis
    by (simp add: demo_simps)
qed

section \<open>Properties of the collection tree item\<close>

text \<open>
  Claim C9. \<^verbatim>\<open>update\<close> never returns anything but the array it was given: its promise is
  fulfilled with the input documents or rejected, and it is fulfilled exactly when every
  \<^verbatim>\<open>ObjectID\<close> could be built and the promise of \<^verbatim>\<open>bulkWrite\<close> was fulfilled. What the store
  holds after the write plays no part in the value.
\<close>

theorem update_returns_input:
  "case MongoCollectionTreeItem_update env documents s of
     (p, s', out) \<Rightarrow>
       (p = Fulfilled documents \<or> (\<exists>e. p = Rejected e)) \<and>
       ((p = Fulfilled documents) =
          (\<exists>ops result c'. operations env documents = Inr ops \<and>
             collection_bulkWrite env ops (collection s) = (Returns (Fulfilled result), c')))"
proof (cases "operations env documents")
  case (Inl e)
  then show ?thesis by (simp add: MongoCollectionTreeItem_update_def)
next
  case (Inr ops)
  obtain r c' where bw: "collection_bulkWrite env ops (collection s) = (r, c')"
    by (cases "collection_bulkWrite env ops (collection s)")
  show ?thesis
  proof (cases r)
    case (Throws e)
    with Inr bw show ?thesis by (simp add: MongoCollectionTreeItem_update_def)
  next
    case (Returns q)
    with Inr bw show ?thesis
      by (cases q) (simp_all add: MongoCollectionTreeItem_update_def)
  qed
qed

theorem update_returns_input_witness:
  "fst (MongoCollectionTreeItem_update demo_env [demo_doc ''zz'']
          (new_MongoCollectionTreeItem demo_env [demo_doc ''a''] None))
     = Fulfilled [demo_doc ''zz'']
   \<and> collection_find demo_env None
        (collection (fst (snd (MongoCollectionTreeItem_update demo_env [demo_doc ''zz'']
          (new_MongoCollectionTreeItem demo_env [demo_doc ''a''] None)))))
     = [demo_doc ''a'']"
  using update_returns_input [where env = demo_env and documents = "[demo_doc ''zz'']"
      and s = "new_MongoCollectionTreeItem demo_env [demo_doc ''a''] None"]
  by (simp add: MongoCollectionTreeItem_update_def demo_env_def demo_doc_def
      new_MongoCollectionTreeItem_def)








section \<open>Properties of the editor manager\<close>

lemma updateEditor_ignoreSave:
  "ignoreSave (fst (snd (updateEditor env data textEditor m w)))
     = (ignoreSave m \<and> (\<exists>e w1. writeToEditor textEditor (JSON_stringify_2 env data) w = (Inl e, w1)))"
proof (cases "writeToEditor textEditor (JSON_stringify_2 env data) w")
  case (Pair r w1)
  then show ?thesis
    by (cases r) (simp_all add: updateEditor_def split: prod.splits)
qed

lemma updateEditor_keeps_ignoreSave_clear:
  assumes "\<not> ignoreSave m"
  shows "\<not> ignoreSave (fst (snd (updateEditor env data textEditor m w)))"
  using assms by (simp add: updateEditor_ignoreSave)

lemma updateEditor_calls_clear:
  "\<not> ignoreSave m \<Longrightarrow> \<not> ignoreSave (updateEditor_calls env calls m)"
proof (induction calls arbitrary: m)
  case Nil
  then show ?case by simp
next
  case (Cons c calls)
  obtain data textEditor w where c: "c = (data, textEditor, w)" by (cases c)
  from Cons.prems have "\<not> ignoreSave (fst (snd (updateEditor env data textEditor m w)))"
    by (rule updateEditor_keeps_ignoreSave_clear)
  then show ?case unfolding c by (simp add: Cons.IH)
qed

lemma updateEditor_save_fails:
  assumes "textDocuments w p = Some b" and "saveFailure w = Some e"
  shows "updateEditor env data (Some p) m w =
           (Inl e, m\<lparr>ignoreSave := False\<rparr>,
            w\<lparr>textDocuments := (textDocuments w)(p \<mapsto> \<lparr>buf_text = JSON_stringify_2 env data, buf_dirty = True\<rparr>)\<rparr>)"
  using assms by (simp add: updateEditor_def writeToEditor_def save_def)

text \<open>
  The flag is set, there is no active editor to write to: the write throws before the
  \<^verbatim>\<open>try\<close> block is entered, and the call ends with the flag still set.
\<close>

theorem ignoreSave_left_set_counterexample:
  "fst (updateEditor demo_editor_env True None
          \<lparr>fileMap = [], ignoreSave = True, globalState = None\<rparr> demo_world) = Inl TypeError
   \<and> ignoreSave (fst (snd (updateEditor demo_editor_env True None
          \<lparr>fileMap = [], ignoreSave = True, globalState = None\<rparr> demo_world)))"
  by (simp add: updateEditor_def writeToEditor_def)

text \<open>
  Claim C2, as the code has it. \<^verbatim>\<open>ignoreSave\<close> is set after a call of \<^verbatim>\<open>updateEditor\<close> exactly
  when it was set before the call and the write to the editor, which stands before the
  \<^verbatim>\<open>try\<close> block, failed. So a call whose write succeeds leaves the flag false whatever it was
  before and whether the save succeeds or fails; a call that finds the flag clear leaves it
  clear; after any sequence of calls on a new manager, whatever the host did in each of
  them, the flag is false; and a call whose save is rejected returns that error.
\<close>

theorem updateEditor_resets_ignoreSave:
  "ignoreSave (fst (snd (updateEditor env data textEditor m w)))
     = (ignoreSave m \<and> (\<exists>e w1. writeToEditor textEditor (JSON_stringify_2 env data) w = (Inl e, w1)))
   \<and> (writeToEditor textEditor (JSON_stringify_2 env data) w = (Inr u, w1)
        \<longrightarrow> \<not> ignoreSave (fst (snd (updateEditor env data textEditor m w)))
            \<and> fst (updateEditor env data textEditor m w) = fst (save textEditor w1))
   \<and> (\<not> ignoreSave m \<longrightarrow> \<not> ignoreSave (fst (snd (updateEditor env data textEditor m w))))
   \<and> \<not> ignoreSave (updateEditor_calls env calls (new_CosmosEditorManager gs))
   \<and> (textDocuments w p = Some b \<and> saveFailure w = Some e \<longrightarrow>
        fst (updateEditor env data (Some p) m w) = Inl e
        \<and> \<not> ignoreSave (fst (snd (updateEditor env data (Some p) m w))))"
proof (intro conjI impI)
  show "ignoreSave (fst (snd (updateEditor env data textEditor m w)))
     = (ignoreSave m \<and> (\<exists>e w1. writeToEditor textEditor (JSON_stringify_2 env data) w = (Inl e, w1)))"
    by (rule updateEditor_ignoreSave)
next
  assume h: "writeToEditor textEditor (JSON_stringify_2 env data) w = (Inr u, w1)"
  then show "\<not> ignoreSave (fst (snd (updateEditor env data textEditor m w)))"
    by (simp add: updateEditor_ignoreSave)
  from h show "fst (updateEditor env data textEditor m w) = fst (save textEditor w1)"
    by (simp add: updateEditor_def split: prod.splits)
next
  assume "\<not> ignoreSave m"
  then show "\<not> ignoreSave (fst (snd (updateEditor env data textEditor m w)))"
    by (rule updateEditor_keeps_ignoreSave_clear)
next
  show "\<not> ignoreSave (updateEditor_calls env calls (new_CosmosEditorManager gs))"
    by (rule updateEditor_calls_clear) (simp add: new_CosmosEditorManager_def)
next
  assume h: "textDocuments w p = Some b \<and> saveFailure w = Some e"
  then show "fst (updateEditor env data (Some p) m w) = Inl e"
    by (simp add: updateEditor_save_fails)
  from h show "\<not> ignoreSave (fst (snd (updateEditor env data (Some p) m w)))"
    by (simp add: updateEditor_save_fails)
qed

text \<open>
  The flag is set on entry, the document is open and the save is rejected, and then
  accepted: both calls end with the flag false.
\<close>

theorem updateEditor_resets_ignoreSave_witness:
  "fst (updateEditor demo_editor_env True (Some ''/tmp/a.json'')
          \<lparr>fileMap = [], ignoreSave = True, globalState = None\<rparr>
          (demo_world\<lparr>textDocuments := [''/tmp/a.json'' \<mapsto> \<lparr>buf_text = [], buf_dirty = False\<rparr>],
                      saveFailure := Some (External ''disk full'')\<rparr>))
     = Inl (External ''disk full'')
   \<and> \<not> ignoreSave (fst (snd (updateEditor demo_editor_env True (Some ''/tmp/a.json'')
          \<lparr>fileMap = [], ignoreSave = True, globalState = None\<rparr>
          (demo_world\<lparr>textDocuments := [''/tmp/a.json'' \<mapsto> \<lparr>buf_text = [], buf_dirty = False\<rparr>],
                      saveFailure := Some (External ''disk full'')\<rparr>))))
   \<and> fst (updateEditor demo_editor_env True (Some ''/tmp/a.json'')
          \<lparr>fileMap = [], ignoreSave = True, globalState = None\<rparr>
          (demo_world\<lparr>textDocuments := [''/tmp/a.json'' \<mapsto> \<lparr>buf_text = [], buf_dirty = False\<rparr>]\<rparr>))
     = Inr ()
   \<and> \<not> ignoreSave (fst (snd (updateEditor demo_editor_env True (Some ''/tmp/a.json'')
          \<lparr>fileMap = [], ignoreSave = True, globalState = None\<rparr>
          (demo_world\<lparr>textDocuments := [''/tmp/a.json'' \<mapsto> \<lparr>buf_text = [], buf_dirty = False\<rparr>]\<rparr>))))"
proof -
  let ?m = "\<lparr>fileMap = [], ignoreSave = True, globalState = None\<rparr> :: (bool, bool) CosmosEditorManager"
  let ?b = "\<lparr>buf_text = [], buf_dirty = False\<rparr>"
  let ?w = "demo_world\<lparr>textDocuments := [''/tmp/a.json'' \<mapsto> ?b]\<rparr>"
  let ?wf = "demo_world\<lparr>textDocuments := [''/tmp/a.json'' \<mapsto> ?b],
                      saveFailure := Some (External ''disk full'')\<rparr>"
  have wr: "writeToEditor (Some ''/tmp/a.json'') (JSON_stringify_2 demo_editor_env True) ?w
              = (Inr (), ?w\<lparr>textDocuments := (textDocuments ?w)(''/tmp/a.json'' \<mapsto>
                    \<lparr>buf_text = JSON_stringify_2 demo_editor_env True, buf_dirty = True\<rparr>)\<rparr>)"
    by (simp add: writeToEditor_def)
  have sv: "fst (save (Some ''/tmp/a.json'') (?w\<lparr>textDocuments := (textDocuments ?w)(''/tmp/a.json'' \<mapsto>
                    \<lparr>buf_text = JSON_stringify_2 demo_editor_env True, buf_dirty = True\<rparr>)\<rparr>)) = Inr ()"
    by (simp add: save_def demo_world_def)
  have f: "textDocuments ?wf ''/tmp/a.json'' = Some ?b \<and> saveFailure ?wf = Some (External ''disk full'')"
    by simp
  note ok = updateEditor_resets_ignoreSave [where env = demo_editor_env and data = True
      and textEditor = "Some ''/tmp/a.json''" and m = ?m and w = ?w and u = "()"
      and ?w1.0 = "?w\<lparr>textDocuments := (textDocuments ?w)(''/tmp/a.json'' \<mapsto>
                    \<lparr>buf_text = JSON_stringify_2 demo_editor_env True, buf_dirty = True\<rparr>)\<rparr>",
      THEN conjunct2, THEN conjunct1, rule_format, OF wr]
  note failing = updateEditor_resets_ignoreSave [where env = demo_editor_env and data = True
      and p = "''/tmp/a.json''" and e = "External ''disk full''" and b = ?b and m = ?m and w = ?wf,
      THEN conjunct2, THEN conjunct2, THEN conjunct2, THEN conjunct2, rule_format, OF f]
  from ok sv failing show ?thesis by simp
qed

subsection \<open>Looking a binding up\<close>

lemma find_key: "List.find (\<lambda>x. x = p) xs = (if p \<in> set xs then Some p else None)"
  by (induction xs) auto

lemma findFilePath_eq:
  "findFilePath m p = (if p \<in> fst ` set (fileMap m) then Some p else None)"
  by (simp add: findFilePath_def find_key)

lemma truthy_Some [simp]: "truthy (Some p) = (p \<noteq> [])"
  by (simp add: truthy_def)

lemma truthy_None [simp]: "\<not> truthy None"
  by (simp add: truthy_def)


lemma onDidSave_bound:
  assumes "map_of (fileMap m) (fsPath doc) = Some ed" and "fsPath doc \<noteq> []"
  shows "findFilePath m (fsPath doc) = Some (fsPath doc)"
    and "fileMap_get m (Some (fsPath doc)) = ed"
proof -
  from assms(1) have "fsPath doc \<in> fst ` set (fileMap m)"
    by (metis domI dom_map_of_conv_image_fst)
  then show "findFilePath m (fsPath doc) = Some (fsPath doc)"
    by (simp add: findFilePath_eq)
  from assms(1) show "fileMap_get m (Some (fsPath doc)) = ed"
    by (simp add: fileMap_get_def)
qed

subsection \<open>Successful runs\<close>





lemma onDidSave_uploads:
  assumes bound: "map_of (fileMap m) (fsPath doc) = Some (Some e)" and ne: "fsPath doc \<noteq> []"
    and flag: "\<not> ignoreSave m"
    and confirm: "showSavePrompt w = Some False \<or> dialogAnswer w = Some upload
                    \<or> dialogAnswer w = Some uploadDontWarn"
  shows "onDidSaveTextDocument env doc tree m w =
           updateToCloud env (Some e) doc m
             (if showSavePrompt w \<noteq> Some False \<and> dialogAnswer w = Some uploadDontWarn
              then w\<lparr>suppressTelemetry := False, showSavePrompt := Some False\<rparr>
              else w\<lparr>suppressTelemetry := False\<rparr>)"
proof -
  note b = onDidSave_bound [OF bound ne]
  show ?thesis
  proof (cases "showSavePrompt w = Some False")
    case True
    then show ?thesis
      using b ne flag by (simp add: onDidSaveTextDocument_def Let_def)
  next
    case False
    with confirm consider "dialogAnswer w = Some upload" | "dialogAnswer w = Some uploadDontWarn"
      by blast
    then show ?thesis
    proof cases
      case 1
      with False show ?thesis
        using b ne flag by (simp add: onDidSaveTextDocument_def Let_def showWarningMessage_def)
    next
      case 2
      with False show ?thesis
        using b ne flag by (simp add: onDidSaveTextDocument_def Let_def showWarningMessage_def)
    qed
  qed
qed

lemma demo_localDocPath: "localDocPath demo_editor_env ''a.json'' = demo_path"
  by (simp add: localDocPath_def path_join_def demo_editor_env_def demo_path_def)

lemma demo_bound_eq:
  "demo_bound =
     (Inr (),
      \<lparr>fileMap = [(demo_path, Some (demo_editor ''id1''))], ignoreSave = False,
       globalState = Some [demo_path \<mapsto> ''id1'']\<rparr>,
      demo_world\<lparr>files := [demo_path \<mapsto> ''true''],
                 textDocuments := [demo_path \<mapsto> \<lparr>buf_text = ''true'', buf_dirty = False\<rparr>],
                 activeTextEditor := Some demo_path\<rparr>)"
  unfolding demo_bound_def showDocument_def demo_localDocPath
  by (simp add: ensureFile_def openTextDocument_def showTextDocument_def updateEditor_def
      writeToEditor_def save_def new_CosmosEditorManager_def demo_world_def demo_editor_def
      demo_editor_env_def)







text \<open>
  Claim C4. When the text of the saved document does not parse, the upload fails with the
  \<open>SyntaxError\<close> of \<^verbatim>\<open>JSON.parse\<close> and changes nothing. For a buffer bound to an entity the
  handler as a whole ends with that error (or with \<open>UserCancelledError\<close> when the user
  stops it at the prompt); the manager, the remote store, the history of \<^verbatim>\<open>update\<close> calls
  and the buffers are as before.
\<close>

theorem malformed_buffer_no_update:
  assumes "JSON_parse env (getText doc) = None"
  shows "updateToCloud env (Some e) doc m w = (Inl SyntaxError, m, w)
       \<and> (map_of (fileMap m) (fsPath doc) = Some (Some e) \<and> fsPath doc \<noteq> [] \<and> \<not> ignoreSave m
            \<longrightarrow> (case onDidSaveTextDocument env doc tree m w of
                   (res, m', w') \<Rightarrow>
                     (res = Inl SyntaxError \<or> res = Inl UserCancelledError)
                     \<and> (showSavePrompt w = Some False \<or> dialogAnswer w = Some upload
                          \<or> dialogAnswer w = Some uploadDontWarn \<longrightarrow> res = Inl SyntaxError)
                     \<and> m' = m \<and> remote w' = remote w \<and> updateCalls w' = updateCalls w
                     \<and> textDocuments w' = textDocuments w \<and> files w' = files w))"
proof (intro conjI impI)
  show u: "updateToCloud env (Some e) doc m' w' = (Inl SyntaxError, m', w')" for m' w'
    using assms by (simp add: updateToCloud_def)
  assume h: "map_of (fileMap m) (fsPath doc) = Some (Some e) \<and> fsPath doc \<noteq> [] \<and> \<not> ignoreSave m"
  then have bound: "map_of (fileMap m) (fsPath doc) = Some (Some e)"
    and ne: "fsPath doc \<noteq> []" and flag: "\<not> ignoreSave m"
    by simp_all
  note b = onDidSave_bound [OF bound ne]
  show "case onDidSaveTextDocument env doc tree m w of
          (res, m', w') \<Rightarrow>
            (res = Inl SyntaxError \<or> res = Inl UserCancelledError)
            \<and> (showSavePrompt w = Some False \<or> dialogAnswer w = Some upload
                 \<or> dialogAnswer w = Some uploadDontWarn \<longrightarrow> res = Inl SyntaxError)
            \<and> m' = m \<and> remote w' = remote w \<and> updateCalls w' = updateCalls w
            \<and> textDocuments w' = textDocuments w \<and> files w' = files w"
  proof (cases "showSavePrompt w = Some False \<or> dialogAnswer w = Some upload
                    \<or> dialogAnswer w = Some uploadDontWarn")
    case True
    show ?thesis
      unfolding onDidSave_uploads [OF bound ne flag True] u using True by simp
  next
    case False
    then have "onDidSaveTextDocument env doc tree m w
                 = (Inl UserCancelledError, m, w\<lparr>suppressTelemetry := False\<rparr>)"
      using b ne flag
      by (auto simp add: onDidSaveTextDocument_def Let_def showWarningMessage_def
          split: option.splits)
    with False show ?thesis by simp
  qed
qed

theorem malformed_buffer_no_update_witness:
  "JSON_parse demo_editor_env (getText \<lparr>fsPath = demo_path, getText = ''{oops'', isDirty = False\<rparr>) = None
   \<and> fst (onDidSaveTextDocument demo_editor_env
            \<lparr>fsPath = demo_path, getText = ''{oops'', isDirty = False\<rparr> (\<lambda>i. None)
            (fst (snd demo_bound)) (snd (snd demo_bound))) = Inl SyntaxError
   \<and> updateCalls (snd (snd (onDidSaveTextDocument demo_editor_env
            \<lparr>fsPath = demo_path, getText = ''{oops'', isDirty = False\<rparr> (\<lambda>i. None)
            (fst (snd demo_bound)) (snd (snd demo_bound))))) = []
   \<and> remote (snd (snd (onDidSaveTextDocument demo_editor_env
            \<lparr>fsPath = demo_path, getText = ''{oops'', isDirty = False\<rparr> (\<lambda>i. None)
            (fst (snd demo_bound)) (snd (snd demo_bound))))) = True"
proof -
  let ?doc = "\<lparr>fsPath = demo_path, getText = ''{oops'', isDirty = False\<rparr>"
  have p: "JSON_parse demo_editor_env (getText ?doc) = None"
    by (simp add: demo_editor_env_def)
  obtain res m' w' where h: "onDidSaveTextDocument demo_editor_env ?doc (\<lambda>i. None)
      (fst (snd demo_bound)) (snd (snd demo_bound)) = (res, m', w')"
    by (cases "onDidSaveTextDocument demo_editor_env ?doc (\<lambda>i. None)
      (fst (snd demo_bound)) (snd (snd demo_bound))")
  from malformed_buffer_no_update [OF p, of "demo_editor ''id1''" "fst (snd demo_bound)"
      "snd (snd demo_bound)" "\<lambda>i. None"]
  show ?thesis
    unfolding h using p by (simp add: demo_bound_eq demo_world_def demo_path_def)
qed

subsection \<open>Binding recovery\<close>

lemma loadPersistedEditor_ignoreSave:
  "ignoreSave (snd (loadPersistedEditor env documentUri tree m)) = ignoreSave m"
  by (simp add: loadPersistedEditor_def Let_def split: option.splits)

lemma loadPersistedEditor_not_found:
  assumes "globalState m = Some persisted" and "persisted documentUri = Some entityId"
    and "documentUri \<noteq> []" and "findNode entityId = None"
  shows "loadPersistedEditor env documentUri (Some findNode) m = (Inl (Error failedToFind), m)"
  using assms by (simp add: loadPersistedEditor_def)

lemma loadPersistedEditor_no_entry:
  assumes "case globalState m of None \<Rightarrow> True | Some persisted \<Rightarrow> persisted documentUri = None"
  shows "loadPersistedEditor env documentUri tree m = (Inr None, m)"
  using assms by (simp add: loadPersistedEditor_def split: option.splits)

lemma loadPersistedEditor_found:
  assumes "globalState m = Some persisted" and "persisted documentUri = Some entityId"
    and "documentUri \<noteq> []" and "findNode entityId = Some editorNode"
  shows "loadPersistedEditor env documentUri (Some findNode) m =
           (Inr (Some documentUri),
            m\<lparr>fileMap := AList.update documentUri
                 (if treeItem editorNode = IsMongoCollectionTreeItem
                  then Some (MongoCollectionNodeEditor env editorNode)
                  else if treeItem editorNode = IsDocDBDocumentTreeItem
                  then Some (DocDBDocumentNodeEditor env editorNode)
                  else if treeItem editorNode = IsMongoDocumentTreeItem
                  then Some (MongoDocumentNodeEditor env editorNode)
                  else None)
                 (fileMap m)\<rparr>)"
  using assms by (simp add: loadPersistedEditor_def)

subsection \<open>A save while the flag is set\<close>

lemma suppressed_no_upload:
  assumes "ignoreSave m"
  shows "updateCalls (snd (snd (onDidSaveTextDocument env doc tree m w))) = updateCalls w
       \<and> remote (snd (snd (onDidSaveTextDocument env doc tree m w))) = remote w"
proof (cases "truthy (findFilePath m (fsPath doc))")
  case True
  with assms show ?thesis by (simp add: onDidSaveTextDocument_def)
next
  case False
  obtain r m1 where l: "loadPersistedEditor env (fsPath doc) (Some tree) m = (r, m1)"
    by (cases "loadPersistedEditor env (fsPath doc) (Some tree) m")
  from loadPersistedEditor_ignoreSave [of env "fsPath doc" "Some tree" m] l assms
  have "ignoreSave m1" by simp
  with False l show ?thesis
    by (cases r) (simp_all add: onDidSaveTextDocument_def)
qed

lemma suppressed_after_recovery:
  assumes "ignoreSave m" and "fsPath doc \<notin> fst ` set (fileMap m)"
    and "loadPersistedEditor env (fsPath doc) (Some tree) m = (r, m1)"
  shows "onDidSaveTextDocument env doc tree m w =
           (case r of Inl e \<Rightarrow> Inl e | Inr filePath \<Rightarrow> Inr (), m1, w\<lparr>suppressTelemetry := True\<rparr>)"
proof -
  from assms(2) have f: "findFilePath m (fsPath doc) = None"
    by (simp add: findFilePath_eq)
  from loadPersistedEditor_ignoreSave [of env "fsPath doc" "Some tree" m] assms(1,3)
  have "ignoreSave m1" by simp
  with f assms(3) show ?thesis
    by (cases r) (simp_all add: onDidSaveTextDocument_def)
qed

text \<open>
  The flag is set and the buffer is bound in the persisted table only, to an entity the tree
  does not find: the handler fails.
\<close>

theorem suppressed_save_fails_counterexample:
  "ignoreSave (demo_stale\<lparr>ignoreSave := True\<rparr>)
   \<and> map_option (\<lambda>persisted. persisted demo_path) (globalState (demo_stale\<lparr>ignoreSave := True\<rparr>))
       = Some (Some ''id1'')
   \<and> fst (onDidSaveTextDocument demo_editor_env
            \<lparr>fsPath = demo_path, getText = ''false'', isDirty = False\<rparr> (\<lambda>i. None)
            (demo_stale\<lparr>ignoreSave := True\<rparr>) demo_world)
       = Inl (Error failedToFind)"
  by (simp add: onDidSaveTextDocument_def findFilePath_def loadPersistedEditor_def demo_stale_def
      new_CosmosEditorManager_def demo_path_def)

text \<open>
  Claim C5, as the code has it. While \<^verbatim>\<open>ignoreSave\<close> is set, the handler uploads nothing,
  whatever the buffer: no \<^verbatim>\<open>update\<close> is called and the remote store is as before. The
  handler looks the binding up, and recovers it from the persisted table, before it reads
  the flag. So it returns without error for a buffer bound in memory (manager unchanged),
  for a buffer bound nowhere (manager unchanged) and for a buffer bound in the persisted
  table only whose entity the tree finds (the binding is then stored in \<open>fileMap\<close>); for a
  buffer bound in the persisted table only whose entity the tree does not find, it fails
  with the error of the recovery and leaves the manager unchanged.
\<close>

theorem suppressed_save_is_noop:
  assumes "ignoreSave m"
  shows "updateCalls (snd (snd (onDidSaveTextDocument env doc tree m w))) = updateCalls w
       \<and> remote (snd (snd (onDidSaveTextDocument env doc tree m w))) = remote w
       \<and> (fsPath doc \<in> fst ` set (fileMap m) \<and> fsPath doc \<noteq> []
            \<longrightarrow> onDidSaveTextDocument env doc tree m w
                  = (Inr (), m, w\<lparr>suppressTelemetry := True\<rparr>))
       \<and> (fsPath doc \<notin> fst ` set (fileMap m)
            \<and> (case globalState m of None \<Rightarrow> True | Some persisted \<Rightarrow> persisted (fsPath doc) = None)
            \<longrightarrow> onDidSaveTextDocument env doc tree m w
                  = (Inr (), m, w\<lparr>suppressTelemetry := True\<rparr>))
       \<and> (fsPath doc \<notin> fst ` set (fileMap m) \<and> fsPath doc \<noteq> []
            \<and> globalState m = Some persisted \<and> persisted (fsPath doc) = Some entityId
            \<and> tree entityId = Some editorNode
            \<longrightarrow> onDidSaveTextDocument env doc tree m w
                  = (Inr (),
                     m\<lparr>fileMap := AList.update (fsPath doc)
                          (if treeItem editorNode = IsMongoCollectionTreeItem
                           then Some (MongoCollectionNodeEditor env editorNode)
                           else if treeItem editorNode = IsDocDBDocumentTreeItem
                           then Some (DocDBDocumentNodeEditor env editorNode)
                           else if treeItem editorNode = IsMongoDocumentTreeItem
                           then Some (MongoDocumentNodeEditor env editorNode)
                           else None)
                          (fileMap m)\<rparr>,
                     w\<lparr>suppressTelemetry := True\<rparr>))
       \<and> (fsPath doc \<notin> fst ` set (fileMap m) \<and> fsPath doc \<noteq> []
            \<and> globalState m = Some persisted \<and> persisted (fsPath doc) = Some entityId
            \<and> tree entityId = None
            \<longrightarrow> onDidSaveTextDocument env doc tree m w
                  = (Inl (Error failedToFind), m, w\<lparr>suppressTelemetry := True\<rparr>))"
proof (intro conjI impI)
  from suppressed_no_upload [OF assms]
  show "updateCalls (snd (snd (onDidSaveTextDocument env doc tree m w))) = updateCalls w"
    and "remote (snd (snd (onDidSaveTextDocument env doc tree m w))) = remote w"
    by simp_all
next
  assume h: "fsPath doc \<in> fst ` set (fileMap m) \<and> fsPath doc \<noteq> []"
  then have "findFilePath m (fsPath doc) = Some (fsPath doc)"
    by (simp add: findFilePath_eq)
  with assms h
  show "onDidSaveTextDocument env doc tree m w = (Inr (), m, w\<lparr>suppressTelemetry := True\<rparr>)"
    by (simp add: onDidSaveTextDocument_def)
next
  assume h: "fsPath doc \<notin> fst ` set (fileMap m)
            \<and> (case globalState m of None \<Rightarrow> True | Some persisted \<Rightarrow> persisted (fsPath doc) = None)"
  then have l: "loadPersistedEditor env (fsPath doc) (Some tree) m = (Inr None, m)"
    by (simp add: loadPersistedEditor_no_entry)
  from h have u: "fsPath doc \<notin> fst ` set (fileMap m)" by simp
  show "onDidSaveTextDocument env doc tree m w = (Inr (), m, w\<lparr>suppressTelemetry := True\<rparr>)"
    unfolding suppressed_after_recovery [OF assms u l] by simp
next
  assume h: "fsPath doc \<notin> fst ` set (fileMap m) \<and> fsPath doc \<noteq> []
            \<and> globalState m = Some persisted \<and> persisted (fsPath doc) = Some entityId
            \<and> tree entityId = Some editorNode"
  then have u: "fsPath doc \<notin> fst ` set (fileMap m)" by simp
  from h have g: "globalState m = Some persisted" and e: "persisted (fsPath doc) = Some entityId"
    and n: "fsPath doc \<noteq> []" and t: "tree entityId = Some editorNode"
    by simp_all
  have l: "loadPersistedEditor env (fsPath doc) (Some tree) m =
           (Inr (Some (fsPath doc)),
            m\<lparr>fileMap := AList.update (fsPath doc)
                 (if treeItem editorNode = IsMongoCollectionTreeItem
                  then Some (MongoCollectionNodeEditor env editorNode)
                  else if treeItem editorNode = IsDocDBDocumentTreeItem
                  then Some (DocDBDocumentNodeEditor env editorNode)
                  else if treeItem editorNode = IsMongoDocumentTreeItem
                  then Some (MongoDocumentNodeEditor env editorNode)
                  else None)
                 (fileMap m)\<rparr>)"
    using g e n t by (rule loadPersistedEditor_found)
  show "onDidSaveTextDocument env doc tree m w
                  = (Inr (),
                     m\<lparr>fileMap := AList.update (fsPath doc)
                          (if treeItem editorNode = IsMongoCollectionTreeItem
                           then Some (MongoCollectionNodeEditor env editorNode)
                           else if treeItem editorNode = IsDocDBDocumentTreeItem
                           then Some (DocDBDocumentNodeEditor env editorNode)
                           else if treeItem editorNode = IsMongoDocumentTreeItem
                           then Some (MongoDocumentNodeEditor env editorNode)
                           else None)
                          (fileMap m)\<rparr>,
                     w\<lparr>suppressTelemetry := True\<rparr>)"
    unfolding suppressed_after_recovery [OF assms u l] by simp
next
  assume h: "fsPath doc \<notin> fst ` set (fileMap m) \<and> fsPath doc \<noteq> []
            \<and> globalState m = Some persisted \<and> persisted (fsPath doc) = Some entityId
            \<and> tree entityId = None"
  then have u: "fsPath doc \<notin> fst ` set (fileMap m)" by simp
  from h have g: "globalState m = Some persisted" and e: "persisted (fsPath doc) = Some entityId"
    and n: "fsPath doc \<noteq> []" and t: "tree entityId = None"
    by simp_all
  have l: "loadPersistedEditor env (fsPath doc) (Some tree) m = (Inl (Error failedToFind), m)"
    using g e n t by (rule loadPersistedEditor_not_found)
  show "onDidSaveTextDocument env doc tree m w
          = (Inl (Error failedToFind), m, w\<lparr>suppressTelemetry := True\<rparr>)"
    unfolding suppressed_after_recovery [OF assms u l] by simp
qed

text \<open>
  With the flag set: a buffer bound in memory, and a buffer bound in the persisted table
  only whose entity the tree finds.
\<close>

theorem suppressed_save_is_noop_witness:
  "onDidSaveTextDocument demo_editor_env
     \<lparr>fsPath = demo_path, getText = ''false'', isDirty = False\<rparr> (\<lambda>i. None)
     \<lparr>fileMap = [(demo_path, Some (demo_editor ''id1''))], ignoreSave = True, globalState = None\<rparr>
     demo_world
   = (Inr (),
      \<lparr>fileMap = [(demo_path, Some (demo_editor ''id1''))], ignoreSave = True, globalState = None\<rparr>,
      demo_world\<lparr>suppressTelemetry := True\<rparr>)
   \<and> fst (onDidSaveTextDocument demo_editor_env
        \<lparr>fsPath = demo_path, getText = ''false'', isDirty = False\<rparr>
        (\<lambda>i. Some \<lparr>node_id = i, treeItem = IsMongoDocumentTreeItem\<rparr>)
        (demo_stale\<lparr>ignoreSave := True\<rparr>) demo_world) = Inr ()
   \<and> fileMap (fst (snd (onDidSaveTextDocument demo_editor_env
        \<lparr>fsPath = demo_path, getText = ''false'', isDirty = False\<rparr>
        (\<lambda>i. Some \<lparr>node_id = i, treeItem = IsMongoDocumentTreeItem\<rparr>)
        (demo_stale\<lparr>ignoreSave := True\<rparr>) demo_world)))
       = [(demo_path, Some (demo_editor ''id1''))]
   \<and> updateCalls (snd (snd (onDidSaveTextDocument demo_editor_env
        \<lparr>fsPath = demo_path, getText = ''false'', isDirty = False\<rparr>
        (\<lambda>i. Some \<lparr>node_id = i, treeItem = IsMongoDocumentTreeItem\<rparr>)
        (demo_stale\<lparr>ignoreSave := True\<rparr>) demo_world))) = []"
proof -
  let ?doc = "\<lparr>fsPath = demo_path, getText = ''false'', isDirty = False\<rparr>"
  let ?m = "\<lparr>fileMap = [(demo_path, Some (demo_editor ''id1''))], ignoreSave = True,
             globalState = None\<rparr> :: (bool, bool) CosmosEditorManager"
  let ?tree = "\<lambda>i. Some \<lparr>node_id = i, treeItem = IsMongoDocumentTreeItem\<rparr>"
  let ?s = "demo_stale\<lparr>ignoreSave := True\<rparr>"
  have 1: "onDidSaveTextDocument demo_editor_env ?doc (\<lambda>i. None) ?m demo_world
             = (Inr (), ?m, demo_world\<lparr>suppressTelemetry := True\<rparr>)"
    using suppressed_save_is_noop [where env = demo_editor_env and doc = ?doc
        and tree = "\<lambda>i. None" and m = ?m and w = demo_world]
    by (simp add: demo_path_def)
  have 2: "onDidSaveTextDocument demo_editor_env ?doc ?tree ?s demo_world
             = (Inr (),
                ?s\<lparr>fileMap := AList.update (fsPath ?doc)
                      (Some (MongoDocumentNodeEditor demo_editor_env
                               \<lparr>node_id = ''id1'', treeItem = IsMongoDocumentTreeItem\<rparr>))
                      (fileMap ?s)\<rparr>,
                demo_world\<lparr>suppressTelemetry := True\<rparr>)"
    using suppressed_save_is_noop [where env = demo_editor_env and doc = ?doc
        and tree = ?tree and m = ?s and w = demo_world
        and persisted = "[demo_path \<mapsto> ''id1'']" and entityId = "''id1''"
        and editorNode = "\<lparr>node_id = ''id1'', treeItem = IsMongoDocumentTreeItem\<rparr>"]
    by (simp add: demo_stale_def new_CosmosEditorManager_def demo_path_def)
  show ?thesis
    unfolding 1 2
    by (simp add: demo_stale_def new_CosmosEditorManager_def demo_editor_env_def demo_world_def)
qed

text \<open>
  A persisted binding whose entity the tree no longer finds: the recovery fails and the
  persisted table still has the entry.
\<close>

theorem stale_binding_kept_counterexample:
  "fst (loadPersistedEditor demo_editor_env demo_path (Some (\<lambda>i. None)) demo_stale)
     = Inl (Error failedToFind)
   \<and> map_option (\<lambda>persisted. persisted demo_path)
        (globalState (snd (loadPersistedEditor demo_editor_env demo_path (Some (\<lambda>i. None)) demo_stale)))
     = Some (Some ''id1'')"
  by (simp add: loadPersistedEditor_def demo_stale_def new_CosmosEditorManager_def demo_path_def)

text \<open>
  Claim C8, as the code has it. When the tree does not find the persisted entity of a path
  that has no binding in memory, \<^verbatim>\<open>loadPersistedEditor\<close> fails with the error ``Failed to find
  entity on the tree'' and so do \<^verbatim>\<open>updateMatchingNode\<close> and \<^verbatim>\<open>onDidSaveTextDocument\<close>; the
  manager is unchanged: \<open>fileMap\<close> has no entry for the path, as before, and the persisted
  table keeps the stale one.
\<close>

theorem failed_recovery_changes_nothing:
  assumes "globalState m = Some persisted" and "persisted documentUri = Some entityId"
    and "documentUri \<noteq> []" and "findNode entityId = None"
    and "documentUri \<notin> fst ` set (fileMap m)"
  shows "loadPersistedEditor env documentUri (Some findNode) m = (Inl (Error failedToFind), m)
       \<and> updateMatchingNode env documentUri (Some findNode) m w = (Inl (Error failedToFind), m, w)
       \<and> (fsPath doc = documentUri \<longrightarrow>
            onDidSaveTextDocument env doc findNode m w
              = (Inl (Error failedToFind), m, w\<lparr>suppressTelemetry := True\<rparr>))"
proof -
  have l: "loadPersistedEditor env documentUri (Some findNode) m = (Inl (Error failedToFind), m)"
    using assms(1-4) by (rule loadPersistedEditor_not_found)
  from assms(5) have f: "findFilePath m documentUri = None"
    by (simp add: findFilePath_eq)
  have "updateMatchingNode env documentUri (Some findNode) m w = (Inl (Error failedToFind), m, w)"
    by (simp add: updateMatchingNode_def f l)
  moreover have "fsPath doc = documentUri \<longrightarrow>
            onDidSaveTextDocument env doc findNode m w
              = (Inl (Error failedToFind), m, w\<lparr>suppressTelemetry := True\<rparr>)"
    by (auto simp add: onDidSaveTextDocument_def f l)
  ultimately show ?thesis using l by simp
qed

theorem failed_recovery_changes_nothing_witness:
  "updateMatchingNode demo_editor_env demo_path (Some (\<lambda>i. None)) demo_stale demo_world
     = (Inl (Error failedToFind), demo_stale, demo_world)
   \<and> map_option (\<lambda>persisted. persisted demo_path) (globalState demo_stale) = Some (Some ''id1'')
   \<and> fileMap demo_stale = []"
  using failed_recovery_changes_nothing [where env = demo_editor_env and m = demo_stale
      and persisted = "[demo_path \<mapsto> ''id1'']" and documentUri = demo_path
      and entityId = "''id1''" and findNode = "\<lambda>i. None" and w = demo_world]
  by (simp add: demo_stale_def new_CosmosEditorManager_def demo_path_def)

text \<open>
  Claim C10. For a path bound neither in memory nor in the persisted table,
  \<^verbatim>\<open>updateMatchingNode\<close> goes on with an undefined path and reads
  \<^verbatim>\<open>this.fileMap[undefined]\<close>; no key of \<open>fileMap\<close> is the word \<^verbatim>\<open>undefined\<close> (the keys are
  paths under the temporary directory), so the editor is undefined and the call fails: with
  a \<open>TypeError\<close> once the document is open, with the error of the host when it cannot be
  opened. \<^verbatim>\<open>onDidSaveTextDocument\<close> on the same path returns without error.
\<close>

theorem updateMatchingNode_unbound_fails:
  assumes "documentUri \<notin> fst ` set (fileMap m)"
    and "case globalState m of None \<Rightarrow> True | Some persisted \<Rightarrow> persisted documentUri = None"
    and "''undefined'' \<notin> fst ` set (fileMap m)"
  shows "(\<exists>e w'. updateMatchingNode env documentUri tree m w = (Inl e, m, w'))
       \<and> (\<forall>d w1. openTextDocument documentUri w = (Inr d, w1)
            \<longrightarrow> updateMatchingNode env documentUri tree m w = (Inl TypeError, m, w1))
       \<and> (fsPath doc = documentUri
            \<longrightarrow> onDidSaveTextDocument env doc findNode m w
                  = (Inr (), m, w\<lparr>suppressTelemetry := True\<rparr>))"
proof -
  from assms(1) have f: "findFilePath m documentUri = None"
    by (simp add: findFilePath_eq)
  note l = loadPersistedEditor_no_entry [OF assms(2)]
  from assms(3) have "map_of (fileMap m) ''undefined'' = None"
    by (simp add: map_of_eq_None_iff)
  then have g: "fileMap_get m None = None"
    by (simp add: fileMap_get_def)
  have u: "updateMatchingNode env documentUri tree m w =
             (case openTextDocument documentUri w of
                (Inl e, w1) \<Rightarrow> (Inl e, m, w1)
              | (Inr document, w1) \<Rightarrow> (Inl TypeError, m, w1))"
    by (simp add: updateMatchingNode_def f l g updateToCloud_def split: prod.splits sum.splits)
  have 1: "\<exists>e w'. updateMatchingNode env documentUri tree m w = (Inl e, m, w')"
    unfolding u by (cases "openTextDocument documentUri w"; cases "fst (openTextDocument documentUri w)") auto
  have 2: "\<forall>d w1. openTextDocument documentUri w = (Inr d, w1)
            \<longrightarrow> updateMatchingNode env documentUri tree m w = (Inl TypeError, m, w1)"
    unfolding u by simp
  have 3: "fsPath doc = documentUri
            \<longrightarrow> onDidSaveTextDocument env doc findNode m w
                  = (Inr (), m, w\<lparr>suppressTelemetry := True\<rparr>)"
    by (auto simp add: onDidSaveTextDocument_def f l)
  from 1 2 3 show ?thesis by blast
qed

theorem updateMatchingNode_unbound_fails_witness:
  "updateMatchingNode demo_editor_env demo_path None (new_CosmosEditorManager None)
     (demo_world\<lparr>files := [demo_path \<mapsto> ''true'']\<rparr>)
     = (Inl TypeError, new_CosmosEditorManager None,
        demo_world\<lparr>files := [demo_path \<mapsto> ''true''],
                   textDocuments := [demo_path \<mapsto> \<lparr>buf_text = ''true'', buf_dirty = False\<rparr>]\<rparr>)
   \<and> onDidSaveTextDocument demo_editor_env
        \<lparr>fsPath = demo_path, getText = ''true'', isDirty = False\<rparr> (\<lambda>i. None)
        (new_CosmosEditorManager None) (demo_world\<lparr>files := [demo_path \<mapsto> ''true'']\<rparr>)
     = (Inr (), new_CosmosEditorManager None,
        demo_world\<lparr>files := [demo_path \<mapsto> ''true''], suppressTelemetry := True\<rparr>)"
proof -
  let ?m = "new_CosmosEditorManager None :: (bool, bool) CosmosEditorManager"
  let ?w = "demo_world\<lparr>files := [demo_path \<mapsto> ''true'']\<rparr>"
  let ?doc = "\<lparr>fsPath = demo_path, getText = ''true'', isDirty = False\<rparr>"
  have a: "demo_path \<notin> fst ` set (fileMap ?m)" "''undefined'' \<notin> fst ` set (fileMap ?m)"
    by (simp_all add: new_CosmosEditorManager_def)
  have b: "case globalState ?m of None \<Rightarrow> True | Some persisted \<Rightarrow> persisted demo_path = None"
    by (simp add: new_CosmosEditorManager_def)
  have o: "openTextDocument demo_path ?w =
             (Inr ?doc, demo_world\<lparr>files := [demo_path \<mapsto> ''true''],
                   textDocuments := [demo_path \<mapsto> \<lparr>buf_text = ''true'', buf_dirty = False\<rparr>]\<rparr>)"
    by (simp add: openTextDocument_def demo_world_def)
  have d: "fsPath ?doc = demo_path" by simp
  note t = updateMatchingNode_unbound_fails [OF a(1) b a(2), of demo_editor_env None ?w ?doc "\<lambda>i. None"]
  from t o have "updateMatchingNode demo_editor_env demo_path None ?m ?w
     = (Inl TypeError, ?m, demo_world\<lparr>files := [demo_path \<mapsto> ''true''],
                   textDocuments := [demo_path \<mapsto> \<lparr>buf_text = ''true'', buf_dirty = False\<rparr>]\<rparr>)"
    by blast
  moreover from t d have "onDidSaveTextDocument demo_editor_env ?doc (\<lambda>i. None) ?m ?w
     = (Inr (), ?m, ?w\<lparr>suppressTelemetry := True\<rparr>)"
    by blast
  ultimately show ?thesis by (simp add: demo_world_def)
qed

end
